theory Spec2Isabelle
  imports Main "HOL-Library.Word" "HOL-Library.AList" "HOL-Library.Multiset"
begin

section \<open>Data model\<close>

text \<open>
  Byte strings (\<open>[]byte\<close>) are lists of 8-bit words. \<open>*big.Int\<close> values are \<open>int\<close>;
  \<open>int64\<close> and \<open>uint64\<close> values are 64-bit words where the code converts between them, and
  \<open>int\<close> with the conversion written out otherwise; \<open>time.Time\<close> is a number of seconds,
  the zero time being 0.
\<close>

type_synonym bytes = "8 word list"

subsection \<open>validators.go: Validator and ValidatorSet\<close>

record Validator =
  Address :: string
  PubKey :: bytes
  Stake :: int
  Power :: int
  DelegatedTo :: string
  Jailed :: bool
  JailedUntil :: int
  CreatedAt :: int
  LastActiveAt :: int
  MissedBlocks :: int
  TotalMissed :: int

record GenesisValidator =
  gvAddress :: string
  gvPubKey :: bytes
  gvStake :: int

text \<open>\<open>abcitypes.ValidatorUpdate\<close>: the pair the consensus engine receives.\<close>

record ValidatorUpdate =
  PubKeyBytes :: bytes
  updPower :: int

text \<open>
  \<open>sync.RWMutex\<close>, as one goroutine sees it. \<open>Lock\<close> succeeds on a free mutex only;
  \<open>RLock\<close> succeeds unless a writer holds the mutex. A call that cannot take the mutex
  waits; in a call chain of a single goroutine the holder is the caller itself, so the wait
  never ends. That outcome is the value \<open>None\<close> here and \<open>Blocked\<close> in the operations.
\<close>

datatype RWMutex = Unlocked | WriteLocked | ReadLocked nat

record ValidatorSet =
  validators :: "(string \<times> Validator) list"
  mutex :: RWMutex
  minStake :: int
  maxValidators :: int

text \<open>
  The Go map \<open>validators\<close> is an association list with distinct keys; ranging over the map
  visits the entries in the order of the list. Go fixes no order, and no theorem below
  depends on one: the list is arbitrary.
\<close>

text \<open>
  Modelled from the spec: the key-value store (package \<open>internal/storage\<close> is not among
  the sources). One field per logical key of the persisted layout; a stored value is kept
  decoded, so that JSON encoding followed by decoding is the identity, and a write always
  succeeds.
\<close>

record ('tx, 'blk, 'meta) BlockchainDB =
  dbBlocks :: "nat \<rightharpoonup> 'blk"
  dbTransactions :: "string \<rightharpoonup> 'tx"
  dbState :: "'meta option"
  dbLatestHeight :: "nat option"
  dbValidatorsSet :: "Validator list option"

datatype verror =
  AlreadyRegistered | InsufficientStake | SetFull | ValidatorNotFound
  | InJail | NotInJail | StillInJail | BelowMinimum

text \<open>
  The outcome of a call: it returned a value, it waits for the mutex forever, or it
  panicked. The state is the one the call leaves behind.
\<close>

datatype ('a, 's) run = Done 'a 's | Blocked 's | Panicked 's

fun final_state :: "('a, 's) run \<Rightarrow> 's" where
  "final_state (Done r s) = s"
| "final_state (Blocked s) = s"
| "final_state (Panicked s) = s"

fun response :: "('a, 's) run \<Rightarrow> 'a option" where
  "response (Done r s) = Some r"
| "response (Blocked s) = None"
| "response (Panicked s) = None"

definition Lock :: "ValidatorSet \<Rightarrow> ValidatorSet option" where
  "Lock vs = (if mutex vs = Unlocked then Some (vs\<lparr>mutex := WriteLocked\<rparr>) else None)"

definition Unlock :: "ValidatorSet \<Rightarrow> ValidatorSet" where
  "Unlock vs = vs\<lparr>mutex := Unlocked\<rparr>"

definition RLock :: "ValidatorSet \<Rightarrow> ValidatorSet option" where
  "RLock vs =
     (case mutex vs of
        Unlocked \<Rightarrow> Some (vs\<lparr>mutex := ReadLocked 1\<rparr>)
      | ReadLocked n \<Rightarrow> Some (vs\<lparr>mutex := ReadLocked (Suc n)\<rparr>)
      | WriteLocked \<Rightarrow> None)"

definition RUnlock :: "ValidatorSet \<Rightarrow> ValidatorSet" where
  "RUnlock vs =
     (case mutex vs of
        ReadLocked (Suc (Suc n)) \<Rightarrow> vs\<lparr>mutex := ReadLocked (Suc n)\<rparr>
      | _ \<Rightarrow> vs\<lparr>mutex := Unlocked\<rparr>)"

definition NewValidatorSet :: "int \<Rightarrow> int \<Rightarrow> ValidatorSet" where
  "NewValidatorSet minStake0 maxValidators0 =
     \<lparr>validators = [], mutex = Unlocked, minStake = minStake0, maxValidators = maxValidators0\<rparr>"

text \<open>\<open>big.Int.Int64\<close>: the low 64 bits, read as two's complement.\<close>

definition Int64 :: "int \<Rightarrow> int" where
  "Int64 x = sint (word_of_int x :: 64 word)"

text \<open>\<open>big.Int.Div\<close> is Euclidean; for the positive divisor \<open>10^18\<close> it is \<open>div\<close>.\<close>

definition calculatePower :: "int \<Rightarrow> int" where
  "calculatePower stake =
     (let maxPower = 2 ^ 30; power = stake div 10 ^ 18
      in if power > maxPower then maxPower else Int64 power)"

definition stakeValid :: "int \<Rightarrow> Validator \<Rightarrow> bool" where
  "stakeValid minStake0 v = (Stake v \<ge> minStake0)"

definition isActive :: "int \<Rightarrow> Validator \<Rightarrow> bool" where
  "isActive minStake0 v = (\<not> Jailed v \<and> stakeValid minStake0 v)"

text \<open>
  \<open>sort.Slice\<close> with \<open>less i j = (Stake i > Stake j)\<close>: descending by stake. It is not
  stable, and the input order is the map's; every order of equal stakes it can produce is
  the stable sort of some input order.
\<close>

definition sortByStakeDesc :: "Validator list \<Rightarrow> Validator list" where
  "sortByStakeDesc xs = sort_key (\<lambda>v. - Stake v) xs"

text \<open>The body of \<open>GetActiveValidators\<close>, between taking and releasing the read lock.\<close>

definition activeValidators :: "ValidatorSet \<Rightarrow> Validator list" where
  "activeValidators vs =
     sortByStakeDesc (filter (isActive (minStake vs)) (map snd (validators vs)))"

definition GetActiveValidators :: "ValidatorSet \<Rightarrow> (Validator list, ValidatorSet) run" where
  "GetActiveValidators vs =
     (case RLock vs of
        None \<Rightarrow> Blocked vs
      | Some vs1 \<Rightarrow> Done (activeValidators vs1) (RUnlock vs1))"

definition GetValidators :: "ValidatorSet \<Rightarrow> (Validator list, ValidatorSet) run" where
  "GetValidators vs =
     (case RLock vs of
        None \<Rightarrow> Blocked vs
      | Some vs1 \<Rightarrow> Done (filter (\<lambda>v. \<not> Jailed v) (map snd (validators vs1))) (RUnlock vs1))"

definition GetValidator :: "string \<Rightarrow> ValidatorSet \<Rightarrow> (verror + Validator, ValidatorSet) run" where
  "GetValidator address vs =
     (case RLock vs of
        None \<Rightarrow> Blocked vs
      | Some vs1 \<Rightarrow>
          (case map_of (validators vs1) address of
             None \<Rightarrow> Done (Inl ValidatorNotFound) (RUnlock vs1)
           | Some v \<Rightarrow> Done (Inr v) (RUnlock vs1)))"

text \<open>
  \<open>LoadValidators\<close>: under the write lock, released by \<open>defer\<close> on return. A missing key
  leaves the set as it is; otherwise the map is rebuilt from the stored list, a later
  entry replacing an earlier one of the same address.
\<close>

definition LoadValidators ::
  "ValidatorSet \<Rightarrow> ('tx, 'blk, 'meta) BlockchainDB \<Rightarrow> (verror option, ValidatorSet) run" where
  "LoadValidators vs db =
     (case Lock vs of
        None \<Rightarrow> Blocked vs
      | Some vs1 \<Rightarrow>
          (case dbValidatorsSet db of
             None \<Rightarrow> Done None (Unlock vs1)
           | Some validatorsList \<Rightarrow>
               Done None (Unlock (vs1\<lparr>validators :=
                 foldl (\<lambda>m v. AList.update (Address v) v m) [] validatorsList\<rparr>))))"

text \<open>\<open>SaveValidators\<close>: takes the read lock, writes the list under \<open>validators:set\<close>.\<close>

definition SaveValidators ::
  "ValidatorSet \<Rightarrow> ('tx, 'blk, 'meta) BlockchainDB
     \<Rightarrow> (verror option, ValidatorSet \<times> ('tx, 'blk, 'meta) BlockchainDB) run" where
  "SaveValidators vs db =
     (case RLock vs of
        None \<Rightarrow> Blocked (vs, db)
      | Some vs1 \<Rightarrow>
          Done None (RUnlock vs1, db\<lparr>dbValidatorsSet := Some (map snd (validators vs1))\<rparr>))"

text \<open>\<open>findLowestStakeValidator\<close>: the first entry of least stake in the order of the range.\<close>

definition findLowestStakeValidator :: "ValidatorSet \<Rightarrow> Validator option" where
  "findLowestStakeValidator vs =
     foldl (\<lambda>lowest v.
              (case lowest of
                 None \<Rightarrow> Some v
               | Some l \<Rightarrow> if Stake v < Stake l then Some v else lowest))
       None (map snd (validators vs))"

definition newValidator :: "string \<Rightarrow> bytes \<Rightarrow> int \<Rightarrow> int \<Rightarrow> Validator" where
  "newValidator address pubKey stake now =
     \<lparr>Address = address, PubKey = pubKey, Stake = stake, Power = calculatePower stake,
      DelegatedTo = [], Jailed = False, JailedUntil = 0, CreatedAt = now, LastActiveAt = now,
      MissedBlocks = 0, TotalMissed = 0\<rparr>"

text \<open>
  The tail every mutating operation but \<open>InitializeGenesisValidators\<close> shares: call
  \<open>SaveValidators\<close> (its error is only logged), then return, the deferred \<open>Unlock\<close>
  running on return. The write lock is still held when \<open>SaveValidators\<close> is called.
\<close>

definition saveThenReturn ::
  "'a \<Rightarrow> ValidatorSet \<Rightarrow> ('tx, 'blk, 'meta) BlockchainDB
     \<Rightarrow> ('a, ValidatorSet \<times> ('tx, 'blk, 'meta) BlockchainDB) run" where
  "saveThenReturn r vs db =
     (case SaveValidators vs db of
        Done e (vs1, db1) \<Rightarrow> Done r (Unlock vs1, db1)
      | Blocked s \<Rightarrow> Blocked s
      | Panicked s \<Rightarrow> Panicked s)"

definition RegisterValidator ::
  "string \<Rightarrow> bytes \<Rightarrow> int \<Rightarrow> int \<Rightarrow> ValidatorSet \<Rightarrow> ('tx, 'blk, 'meta) BlockchainDB
     \<Rightarrow> (verror + Validator, ValidatorSet \<times> ('tx, 'blk, 'meta) BlockchainDB) run" where
  "RegisterValidator address pubKey initialStake now vs db =
     (case Lock vs of
        None \<Rightarrow> Blocked (vs, db)
      | Some vs1 \<Rightarrow>
          if map_of (validators vs1) address \<noteq> None then
            Done (Inl AlreadyRegistered) (Unlock vs1, db)
          else if initialStake < minStake vs1 then
            Done (Inl InsufficientStake) (Unlock vs1, db)
          else
            (let validator = newValidator address pubKey initialStake now in
             if int (length (validators vs1)) \<ge> maxValidators vs1 then
               (case findLowestStakeValidator vs1 of
                  None \<Rightarrow> Done (Inl SetFull) (Unlock vs1, db)
                | Some minStakeVal \<Rightarrow>
                    if initialStake \<le> Stake minStakeVal then
                      Done (Inl SetFull) (Unlock vs1, db)
                    else
                      saveThenReturn (Inr validator)
                        (vs1\<lparr>validators :=
                           AList.update address validator
                             (AList.delete (Address minStakeVal) (validators vs1))\<rparr>) db)
             else
               saveThenReturn (Inr validator)
                 (vs1\<lparr>validators := AList.update address validator (validators vs1)\<rparr>) db))"

definition StakeOp ::
  "string \<Rightarrow> int \<Rightarrow> int \<Rightarrow> ValidatorSet \<Rightarrow> ('tx, 'blk, 'meta) BlockchainDB
     \<Rightarrow> (verror option, ValidatorSet \<times> ('tx, 'blk, 'meta) BlockchainDB) run" where
  "StakeOp address amount now vs db =
     (case Lock vs of
        None \<Rightarrow> Blocked (vs, db)
      | Some vs1 \<Rightarrow>
          (case map_of (validators vs1) address of
             None \<Rightarrow> Done (Some ValidatorNotFound) (Unlock vs1, db)
           | Some validator \<Rightarrow>
               if Jailed validator then Done (Some InJail) (Unlock vs1, db)
               else
                 (let v1 = validator\<lparr>Stake := Stake validator + amount\<rparr>;
                      v2 = v1\<lparr>Power := calculatePower (Stake v1), LastActiveAt := now\<rparr>
                  in saveThenReturn None
                       (vs1\<lparr>validators := AList.update address v2 (validators vs1)\<rparr>) db)))"

definition Unstake ::
  "string \<Rightarrow> int \<Rightarrow> int \<Rightarrow> ValidatorSet \<Rightarrow> ('tx, 'blk, 'meta) BlockchainDB
     \<Rightarrow> (verror option, ValidatorSet \<times> ('tx, 'blk, 'meta) BlockchainDB) run" where
  "Unstake address amount now vs db =
     (case Lock vs of
        None \<Rightarrow> Blocked (vs, db)
      | Some vs1 \<Rightarrow>
          (case map_of (validators vs1) address of
             None \<Rightarrow> Done (Some ValidatorNotFound) (Unlock vs1, db)
           | Some validator \<Rightarrow>
               if Jailed validator then Done (Some InJail) (Unlock vs1, db)
               else if Stake validator - amount < minStake vs1 then
                 Done (Some BelowMinimum) (Unlock vs1, db)
               else
                 (let v1 = validator\<lparr>Stake := Stake validator - amount\<rparr>;
                      v2 = v1\<lparr>Power := calculatePower (Stake v1), LastActiveAt := now\<rparr>;
                      m1 = AList.update address v2 (validators vs1);
                      m2 = (if Stake v2 < minStake vs1 then AList.delete address m1 else m1)
                  in saveThenReturn None (vs1\<lparr>validators := m2\<rparr>) db)))"

definition Slash ::
  "string \<Rightarrow> int \<Rightarrow> int \<Rightarrow> int \<Rightarrow> ValidatorSet \<Rightarrow> ('tx, 'blk, 'meta) BlockchainDB
     \<Rightarrow> (verror option, ValidatorSet \<times> ('tx, 'blk, 'meta) BlockchainDB) run" where
  "Slash address slashPercent jailDuration now vs db =
     (case Lock vs of
        None \<Rightarrow> Blocked (vs, db)
      | Some vs1 \<Rightarrow>
          (case map_of (validators vs1) address of
             None \<Rightarrow> Done (Some ValidatorNotFound) (Unlock vs1, db)
           | Some validator \<Rightarrow>
               (let slashAmount = (Stake validator * slashPercent) div 100;
                    v1 = validator\<lparr>Stake := Stake validator - slashAmount\<rparr>;
                    v2 = v1\<lparr>Power := calculatePower (Stake v1)\<rparr>;
                    v3 = v2\<lparr>Jailed := True, JailedUntil := now + jailDuration\<rparr>;
                    m1 = AList.update address v3 (validators vs1);
                    m2 = (if Stake v3 < minStake vs1 then AList.delete address m1 else m1)
                in saveThenReturn None (vs1\<lparr>validators := m2\<rparr>) db)))"

definition Unjail ::
  "string \<Rightarrow> int \<Rightarrow> ValidatorSet \<Rightarrow> ('tx, 'blk, 'meta) BlockchainDB
     \<Rightarrow> (verror option, ValidatorSet \<times> ('tx, 'blk, 'meta) BlockchainDB) run" where
  "Unjail address now vs db =
     (case Lock vs of
        None \<Rightarrow> Blocked (vs, db)
      | Some vs1 \<Rightarrow>
          (case map_of (validators vs1) address of
             None \<Rightarrow> Done (Some ValidatorNotFound) (Unlock vs1, db)
           | Some validator \<Rightarrow>
               if \<not> Jailed validator then Done (Some NotInJail) (Unlock vs1, db)
               else if now < JailedUntil validator then Done (Some StillInJail) (Unlock vs1, db)
               else
                 (let v1 = validator\<lparr>Jailed := False, JailedUntil := 0, MissedBlocks := 0\<rparr>
                  in saveThenReturn None
                       (vs1\<lparr>validators := AList.update address v1 (validators vs1)\<rparr>) db)))"

text \<open>
  \<open>UpdateValidatorActivity\<close>: the slash of a validator that missed 100 blocks in a row is
  only logged; the counter is reset.
\<close>

definition UpdateValidatorActivity ::
  "string \<Rightarrow> bool \<Rightarrow> int \<Rightarrow> ValidatorSet \<Rightarrow> (unit, ValidatorSet) run" where
  "UpdateValidatorActivity address missedBlock now vs =
     (case Lock vs of
        None \<Rightarrow> Blocked vs
      | Some vs1 \<Rightarrow>
          (case map_of (validators vs1) address of
             None \<Rightarrow> Done () (Unlock vs1)
           | Some validator \<Rightarrow>
               (let v1 = validator\<lparr>LastActiveAt := now\<rparr>;
                    v2 = (if missedBlock then
                            (let v = v1\<lparr>MissedBlocks := MissedBlocks v1 + 1,
                                        TotalMissed := TotalMissed v1 + 1\<rparr>
                             in if MissedBlocks v \<ge> 100 then v\<lparr>MissedBlocks := 0\<rparr> else v)
                          else v1\<lparr>MissedBlocks := 0\<rparr>)
                in Done () (Unlock (vs1\<lparr>validators :=
                     AList.update address v2 (validators vs1)\<rparr>)))))"

text \<open>
  Go's built-in \<open>copy(dst, src)\<close>: as many bytes as the shorter of the two slices holds
  are copied; the value is the destination afterwards.
\<close>

definition copyBytes :: "bytes \<Rightarrow> bytes \<Rightarrow> bytes" where
  "copyBytes dst src = (let n = min (length dst) (length src) in take n src @ drop n dst)"

text \<open>
  The variable that \<open>var pubKey ed25519.PubKey\<close> declares. Modelled from the API of the
  consensus library (CometBFT v1, package \<open>crypto/ed25519\<close>, not among the sources), whose
  \<open>ValidatorUpdate.PubKeyBytes\<close> the code fills: \<open>PubKey\<close> is a byte slice, so the variable
  starts as the nil slice, of length 0, and \<open>Bytes()\<close> gives the slice itself.
\<close>

definition nilPubKey :: bytes where
  "nilPubKey = []"

text \<open>
  The conversion loop shared by \<open>ToCometBFTValidators\<close> and \<open>RotateValidators\<close>: a
  validator whose public key is not 32 bytes long (\<open>ed25519.PubKeySize\<close>) is skipped; for
  the others the key is copied into \<open>pubKey[:]\<close> and \<open>pubKey.Bytes()\<close> goes into the update.
\<close>

definition toUpdates :: "Validator list \<Rightarrow> ValidatorUpdate list" where
  "toUpdates vals =
     map (\<lambda>v. \<lparr>PubKeyBytes = copyBytes nilPubKey (PubKey v), updPower = Power v\<rparr>)
       (filter (\<lambda>v. length (PubKey v) = 32) vals)"

definition ToCometBFTValidators :: "ValidatorSet \<Rightarrow> (ValidatorUpdate list, ValidatorSet) run" where
  "ToCometBFTValidators vs =
     (case RLock vs of
        None \<Rightarrow> Blocked vs
      | Some vs1 \<Rightarrow> Done (toUpdates (activeValidators vs1)) (RUnlock vs1))"

text \<open>The copy \<open>RotateValidators\<close> makes of an active validator: seven fields, the rest zero.\<close>

definition copyValidator :: "Validator \<Rightarrow> Validator" where
  "copyValidator v =
     \<lparr>Address = Address v, PubKey = PubKey v, Stake = Stake v, Power = Power v,
      DelegatedTo = [], Jailed = Jailed v, JailedUntil = 0, CreatedAt = CreatedAt v,
      LastActiveAt = LastActiveAt v, MissedBlocks = 0, TotalMissed = 0\<rparr>"

text \<open>
  \<open>RotateValidators\<close>: recompute every power, copy the active validators, cut the copy to
  \<open>maxValidators\<close> when it is longer (sorted first; the slice expression panics on a
  negative bound, with the mutex still held), release the lock, convert. The error
  returned is always nil.
\<close>

definition RotateValidators :: "ValidatorSet \<Rightarrow> (ValidatorUpdate list, ValidatorSet) run" where
  "RotateValidators vs =
     (case Lock vs of
        None \<Rightarrow> Blocked vs
      | Some vs1 \<Rightarrow>
          (let vs2 = vs1\<lparr>validators :=
                 map (\<lambda>(k, v). (k, v\<lparr>Power := calculatePower (Stake v)\<rparr>)) (validators vs1)\<rparr>;
               validatorsCopy =
                 map copyValidator (filter (isActive (minStake vs2)) (map snd (validators vs2)))
           in if int (length validatorsCopy) > maxValidators vs2 then
                (if maxValidators vs2 < 0 then Panicked vs2
                 else Done (toUpdates (take (nat (maxValidators vs2)) (sortByStakeDesc validatorsCopy)))
                        (Unlock vs2))
              else Done (toUpdates validatorsCopy) (Unlock vs2)))"

text \<open>
  \<open>InitializeGenesisValidators\<close>: the one mutating operation that releases the write lock
  itself before it calls \<open>SaveValidators\<close>, whose error it returns.
\<close>

definition InitializeGenesisValidators ::
  "GenesisValidator list \<Rightarrow> int \<Rightarrow> ValidatorSet \<Rightarrow> ('tx, 'blk, 'meta) BlockchainDB
     \<Rightarrow> (verror option, ValidatorSet \<times> ('tx, 'blk, 'meta) BlockchainDB) run" where
  "InitializeGenesisValidators genesisValidators now vs db =
     (case Lock vs of
        None \<Rightarrow> Blocked (vs, db)
      | Some vs1 \<Rightarrow>
          (let vs2 = vs1\<lparr>validators :=
                 foldl (\<lambda>m gv. AList.update (gvAddress gv)
                                  (newValidator (gvAddress gv) (gvPubKey gv) (gvStake gv) now) m)
                   (validators vs1) genesisValidators\<rparr>
           in SaveValidators (Unlock vs2) db))"

subsection \<open>Reachable states of the validator set\<close>

text \<open>
  A state is the validator set together with the store. It is reachable from a fresh set
  over a store without a saved validator list by calls of the operations (whether the call
  returns or not), by a restart of the process (the set is built anew, the store stays),
  and by writes of other components to other keys of the store.
\<close>

datatype vop =
    OpLoad | OpSave
  | OpRegister string bytes int int
  | OpStake string int int
  | OpUnstake string int int
  | OpSlash string int int int
  | OpUnjail string int
  | OpActivity string bool int
  | OpRotate
  | OpGenesis "GenesisValidator list" int
  | OpGetActive | OpGetValidators | OpToCometBFT

fun after ::
  "vop \<Rightarrow> ValidatorSet \<times> ('tx, 'blk, 'meta) BlockchainDB
     \<Rightarrow> ValidatorSet \<times> ('tx, 'blk, 'meta) BlockchainDB" where
  "after OpLoad (vs, db) = (final_state (LoadValidators vs db), db)"
| "after OpSave (vs, db) = final_state (SaveValidators vs db)"
| "after (OpRegister a k s now) (vs, db) = final_state (RegisterValidator a k s now vs db)"
| "after (OpStake a n now) (vs, db) = final_state (StakeOp a n now vs db)"
| "after (OpUnstake a n now) (vs, db) = final_state (Unstake a n now vs db)"
| "after (OpSlash a p d now) (vs, db) = final_state (Slash a p d now vs db)"
| "after (OpUnjail a now) (vs, db) = final_state (Unjail a now vs db)"
| "after (OpActivity a m now) (vs, db) = (final_state (UpdateValidatorActivity a m now vs), db)"
| "after OpRotate (vs, db) = (final_state (RotateValidators vs), db)"
| "after (OpGenesis gvs now) (vs, db) = final_state (InitializeGenesisValidators gvs now vs db)"
| "after OpGetActive (vs, db) = (final_state (GetActiveValidators vs), db)"
| "after OpGetValidators (vs, db) = (final_state (GetValidators vs), db)"
| "after OpToCometBFT (vs, db) = (final_state (ToCometBFTValidators vs), db)"

inductive reachable :: "ValidatorSet \<times> ('tx, 'blk, 'meta) BlockchainDB \<Rightarrow> bool" where
  fresh: "dbValidatorsSet db = None \<Longrightarrow> reachable (NewValidatorSet ms mv, db)"
| restart: "reachable (vs, db) \<Longrightarrow> reachable (NewValidatorSet ms mv, db)"
| other_write: "reachable (vs, db) \<Longrightarrow> dbValidatorsSet db' = dbValidatorsSet db \<Longrightarrow> reachable (vs, db')"
| call: "reachable s \<Longrightarrow> reachable (after op s)"

definition clamp :: "int \<Rightarrow> int \<Rightarrow> int \<Rightarrow> int" where
  "clamp x lo hi = max lo (min hi x)"

definition powerOK :: "Validator \<Rightarrow> bool" where
  "powerOK v = (Power v = calculatePower (Stake v))"

definition powersOK :: "ValidatorSet \<times> ('tx, 'blk, 'meta) BlockchainDB \<Rightarrow> bool" where
  "powersOK s =
     (list_all powerOK (map snd (validators (fst s))) \<and>
      (case dbValidatorsSet (snd s) of None \<Rightarrow> True | Some l \<Rightarrow> list_all powerOK l))"

subsection \<open>Decimal strings\<close>

text \<open>
  \<open>big.Int.SetString(s, 10)\<close>: an optional sign, then one decimal digit or more, and
  nothing else. \<open>decimal\<close> is \<open>String()\<close> of a non-negative number.
\<close>

definition is_digit :: "char \<Rightarrow> bool" where
  "is_digit c = (48 \<le> (of_char c :: nat) \<and> (of_char c :: nat) \<le> 57)"

definition digit_val :: "char \<Rightarrow> nat" where
  "digit_val c = of_char c - 48"

definition scanDigits :: "string \<Rightarrow> nat option" where
  "scanDigits s =
     (if s = [] \<or> \<not> list_all is_digit s then None
      else Some (foldl (\<lambda>a c. 10 * a + digit_val c) 0 s))"

definition SetString10 :: "string \<Rightarrow> int option" where
  "SetString10 s =
     (case s of
        [] \<Rightarrow> None
      | c # cs \<Rightarrow>
          if c = CHR ''-'' then map_option (\<lambda>n. - int n) (scanDigits cs)
          else if c = CHR ''+'' then map_option int (scanDigits cs)
          else map_option int (scanDigits s))"

function decimal :: "nat \<Rightarrow> string" where
  "decimal n =
     (if n < 10 then [char_of (48 + n)]
      else decimal (n div 10) @ [char_of (48 + n mod 10)])"
  by pat_completeness auto
termination
  by (relation "measure id") auto

declare decimal.simps [simp del]

subsection \<open>Transactions, receipts, blocks\<close>

text \<open>
  A \<open>common.Hash\<close> is a 256-bit word and a \<open>common.Address\<close> a 160-bit word; the zero
  values \<open>common.Hash{}\<close> and \<open>common.Address{}\<close> are 0. The slice \<open>AppHash\<close> is made with
  32 bytes and only ever overwritten by \<open>copy\<close> from 32 bytes, so it is a hash as well.
\<close>

type_synonym hash = "256 word"
type_synonym address = "160 word"

text \<open>
  \<open>consensus.Transaction\<close> (its declaration is not among the sources; the fields are the
  ones the code reads). \<open>execution.Transaction\<close> has the same fields but the signature and
  is the same record here, with an empty signature.
\<close>

record Transaction =
  Hash :: string
  From :: string
  To :: string
  Value :: string
  Data :: bytes
  GasLimit :: "64 word"
  GasPrice :: string
  Nonce :: "64 word"
  Signature :: bytes

record ExecLog =
  xlAddress :: string
  xlTopics :: "string list"
  xlData :: bytes

record Log =
  logAddress :: string
  logTopics :: "string list"
  logData :: bytes
  logBlockNumber :: "64 word"
  logTxHash :: string

record ExecutionResult =
  Success :: bool
  GasUsed :: "64 word"
  ReturnData :: bytes
  Logs :: "ExecLog list"
  Error :: string

record AccountState =
  asAddress :: string
  Balance :: string
  asNonce :: "64 word"
  CodeHash :: string
  Storage :: "(string \<times> string) list"

record TransactionReceipt =
  TransactionHash :: string
  BlockNumber :: "64 word"
  rcGasUsed :: "64 word"
  Status :: string
  rcLogs :: "Log list"
  rcError :: string

record BlockHeader =
  bhHeight :: "64 word"
  bhHash :: string
  ParentHash :: string
  Timestamp :: int
  ChainID :: string

record Block =
  Header :: BlockHeader
  Transactions :: "Transaction list"
  Receipts :: "TransactionReceipt list"

text \<open>
  The JSON object under \<open>state_meta\<close>. \<open>StateManager.SaveState\<close> writes root, height and
  timestamp; \<open>Commit\<close> writes root, height and app hash.
\<close>

record StateMeta =
  metaRoot :: hash
  metaHeight :: int
  metaAppHash :: "hash option"
  metaTimestamp :: "int option"

type_synonym DB = "(Transaction, Block, StateMeta) BlockchainDB"

definition emptyDB :: "('tx, 'blk, 'meta) BlockchainDB" where
  "emptyDB = \<lparr>dbBlocks = Map.empty, dbTransactions = Map.empty, dbState = None,
      dbLatestHeight = None, dbValidatorsSet = None\<rparr>"

subsection \<open>The go-ethereum library, as the executor uses it\<close>

text \<open>
  The library is not part of the repository: its functions are parameters, over an
  abstract type \<open>'s\<close> of \<open>state.StateDB\<close> objects. \<open>OpenState\<close> opens the state database
  and the state at a root, as \<open>LoadState\<close> does (\<open>None\<close>: any of the errors on the way);
  \<open>StateNew\<close> is \<open>state.New\<close> on the database already open; \<open>IntermediateRoot\<close> and
  \<open>StateCommit\<close> change the object they are called on (\<open>StateCommit\<close> gives \<open>False\<close> for
  an error); \<open>ApplyMessage\<close> returns the result and the error of \<open>core.ApplyMessage\<close> and
  the state it leaves.
\<close>

record Message =
  msgFrom :: address
  msgTo :: "address option"
  msgNonce :: "64 word"
  msgValue :: int
  msgGasLimit :: "64 word"
  msgGasPrice :: int
  msgGasFeeCap :: int
  msgGasTipCap :: int
  msgData :: bytes

record BlockContext =
  ctxNumber :: int
  ctxTime :: "64 word"
  ctxGasLimit :: "64 word"

record ApplyResult =
  UsedGas :: "64 word"
  Failed :: bool
  arReturnData :: bytes

record 's geth =
  OpenState :: "hash \<Rightarrow> 's option"
  StateNew :: "hash \<Rightarrow> 's option"
  IntermediateRoot :: "'s \<Rightarrow> hash \<times> 's"
  StateCommit :: "'s \<Rightarrow> bool \<times> 's"
  GetBalance :: "'s \<Rightarrow> address \<Rightarrow> nat"
  GetNonce :: "'s \<Rightarrow> address \<Rightarrow> 64 word"
  GetCodeHash :: "'s \<Rightarrow> address \<Rightarrow> hash"
  GetStorageAt :: "'s \<Rightarrow> address \<Rightarrow> hash \<Rightarrow> hash"
  AddBalance :: "'s \<Rightarrow> address \<Rightarrow> nat \<Rightarrow> 's"
  Finalise :: "'s \<Rightarrow> 's"
  StateLogs :: "'s \<Rightarrow> ExecLog list"
  ApplyMessage :: "BlockContext \<Rightarrow> Message \<Rightarrow> 's \<Rightarrow> (ApplyResult option \<times> string option) \<times> 's"
  HexToAddress :: "string \<Rightarrow> address"
  BytesToAddress :: "bytes \<Rightarrow> address"
  CreateAddress :: "address \<Rightarrow> 64 word \<Rightarrow> address"
  AddressHex :: "address \<Rightarrow> string"
  HashHex :: "hash \<Rightarrow> string"
  Keccak256 :: "bytes \<Rightarrow> hash"

text \<open>\<open>common.IsHexAddress\<close>: 40 hexadecimal characters after an optional \<open>0x\<close>.\<close>

definition has0xPrefix :: "string \<Rightarrow> bool" where
  "has0xPrefix s =
     (length s \<ge> 2 \<and> s ! 0 = CHR ''0'' \<and> (s ! 1 = CHR ''x'' \<or> s ! 1 = CHR ''X''))"

definition isHexCharacter :: "char \<Rightarrow> bool" where
  "isHexCharacter c =
     (let n = (of_char c :: nat)
      in (48 \<le> n \<and> n \<le> 57) \<or> (97 \<le> n \<and> n \<le> 102) \<or> (65 \<le> n \<and> n \<le> 70))"

definition isHex :: "string \<Rightarrow> bool" where
  "isHex s = (even (length s) \<and> list_all isHexCharacter s)"

definition IsHexAddress :: "string \<Rightarrow> bool" where
  "IsHexAddress s =
     (let s1 = (if has0xPrefix s then drop 2 s else s)
      in length s1 = 40 \<and> isHex s1)"

subsection \<open>evm.go and state.go: the executor and its state manager\<close>

text \<open>
  \<open>EVMExecutor.stateDB\<close> and \<open>StateManager.stateDB\<close> are pointers to \<open>StateDB\<close> objects.
  Each field holds the object it points to (\<open>None\<close> for nil), and \<open>shared\<close> says that both
  point to one object, so that a change through either is seen through both.
\<close>

record 's EVMExecutor =
  smStateDB :: "'s option"
  smStateRoot :: hash
  stateDB :: "'s option"
  shared :: bool
  currentHeight :: "64 word"
  currentTimestamp :: int
  running :: bool

datatype xerror =
  NotRunning | InvalidValue string | InvalidGasPrice string
  | DeployExecError xerror | DeployFailed string
  | StateDBNotInitialised | CommitFailed

definition NewEVMExecutor :: "'s EVMExecutor" where
  "NewEVMExecutor =
     \<lparr>smStateDB = None, smStateRoot = 0, stateDB = None, shared = False,
      currentHeight = 0, currentTimestamp = 0, running = False\<rparr>"

definition writeExec :: "'s EVMExecutor \<Rightarrow> 's \<Rightarrow> 's EVMExecutor" where
  "writeExec e s =
     e\<lparr>stateDB := Some s, smStateDB := (if shared e then Some s else smStateDB e)\<rparr>"

definition writeSm :: "'s EVMExecutor \<Rightarrow> 's \<Rightarrow> 's EVMExecutor" where
  "writeSm e s =
     e\<lparr>smStateDB := Some s, stateDB := (if shared e then Some s else stateDB e)\<rparr>"

text \<open>
  \<open>StateManager.LoadState\<close>: the root comes from the stored metadata (the zero hash when
  there is none); on success the manager points to the new object.
\<close>

definition LoadState ::
  "'s geth \<Rightarrow> ('tx, 'blk, StateMeta) BlockchainDB \<Rightarrow> 's EVMExecutor \<Rightarrow> 's option \<times> 's EVMExecutor" where
  "LoadState G db e =
     (let root = (case dbState db of None \<Rightarrow> 0 | Some m \<Rightarrow> metaRoot m)
      in case OpenState G root of
           None \<Rightarrow> (None, e)
         | Some s \<Rightarrow> (Some s, e\<lparr>smStateDB := Some s, smStateRoot := root, shared := False\<rparr>))"

definition Start ::
  "'s geth \<Rightarrow> ('tx, 'blk, StateMeta) BlockchainDB \<Rightarrow> 's EVMExecutor \<Rightarrow> xerror option \<times> 's EVMExecutor" where
  "Start G db e =
     (case LoadState G db e of
        (None, e1) \<Rightarrow> (Some StateDBNotInitialised, e1)
      | (Some s, e1) \<Rightarrow> (None, e1\<lparr>stateDB := Some s, shared := True, running := True\<rparr>))"

definition SetCurrentBlockInfo :: "64 word \<Rightarrow> int \<Rightarrow> 's EVMExecutor \<Rightarrow> 's EVMExecutor" where
  "SetCurrentBlockInfo height timestamp e =
     e\<lparr>currentHeight := height, currentTimestamp := timestamp\<rparr>"

definition getStateDB ::
  "'s geth \<Rightarrow> ('tx, 'blk, StateMeta) BlockchainDB \<Rightarrow> 's EVMExecutor \<Rightarrow> 's option \<times> 's EVMExecutor" where
  "getStateDB G db e =
     (case stateDB e of
        Some s \<Rightarrow> (Some s, e)
      | None \<Rightarrow>
          (case LoadState G db e of
             (None, e1) \<Rightarrow> (None, e1)
           | (Some s, e1) \<Rightarrow> (Some s, e1\<lparr>stateDB := Some s, shared := True\<rparr>)))"

text \<open>
  The message \<open>ExecuteTransaction\<close> builds: \<open>To\<close> is the address of a local variable that
  holds \<open>common.HexToAddress(tx.To)\<close>, so it is never nil.
\<close>

definition toMessage :: "'s geth \<Rightarrow> Transaction \<Rightarrow> int \<Rightarrow> int \<Rightarrow> Message" where
  "toMessage G tx value gasPrice =
     \<lparr>msgFrom = HexToAddress G (From tx), msgTo = Some (HexToAddress G (To tx)),
      msgNonce = Nonce tx, msgValue = value, msgGasLimit = GasLimit tx,
      msgGasPrice = gasPrice, msgGasFeeCap = gasPrice, msgGasTipCap = gasPrice,
      msgData = Data tx\<rparr>"

definition blockContext :: "'s EVMExecutor \<Rightarrow> Transaction \<Rightarrow> BlockContext" where
  "blockContext e tx =
     \<lparr>ctxNumber = sint (currentHeight e), ctxTime = word_of_int (currentTimestamp e),
      ctxGasLimit = GasLimit tx\<rparr>"

text \<open>
  \<open>ExecuteTransaction\<close>. A nil \<open>StateDB\<close> (the state could not be loaded) or a nil result
  without an error makes the call panic on the nil pointer.
\<close>

definition ExecuteTransaction ::
  "'s geth \<Rightarrow> ('tx, 'blk, StateMeta) BlockchainDB \<Rightarrow> Transaction \<Rightarrow> 's EVMExecutor
     \<Rightarrow> (xerror + ExecutionResult, 's EVMExecutor) run" where
  "ExecuteTransaction G db tx e =
     (if \<not> running e then Done (Inl NotRunning) e
      else
        (case SetString10 (Value tx) of
           None \<Rightarrow> Done (Inl (InvalidValue (Value tx))) e
         | Some value \<Rightarrow>
        (case SetString10 (GasPrice tx) of
           None \<Rightarrow> Done (Inl (InvalidGasPrice (GasPrice tx))) e
         | Some gasPrice \<Rightarrow>
        (let e1 = (if Nonce tx = 0 then snd (getStateDB G db e) else e);
             (sdb, e2) = getStateDB G db e1
         in case sdb of
              None \<Rightarrow> Panicked e2
            | Some s \<Rightarrow>
                (let ((result, err), s1) =
                       ApplyMessage G (blockContext e2 tx) (toMessage G tx value gasPrice) s;
                     e3 = writeExec e2 s1
                 in case err of
                      Some msg \<Rightarrow>
                        Done (Inr \<lparr>Success = False,
                                   GasUsed = (case result of None \<Rightarrow> 0 | Some r \<Rightarrow> UsedGas r),
                                   ReturnData = [], Logs = [], Error = msg\<rparr>) e3
                    | None \<Rightarrow>
                        (case result of
                           None \<Rightarrow> Panicked e3
                         | Some r \<Rightarrow>
                             if \<not> Failed r then
                               (let s2 = Finalise G s1
                                in Done (Inr \<lparr>Success = True, GasUsed = UsedGas r,
                                              ReturnData = arReturnData r,
                                              Logs = StateLogs G s2, Error = []\<rparr>)
                                     (writeExec e3 s2))
                             else
                               Done (Inr \<lparr>Success = False, GasUsed = UsedGas r,
                                          ReturnData = arReturnData r,
                                          Logs = [], Error = []\<rparr>) e3))))))"

text \<open>\<open>GetState\<close>: balance, nonce, code hash and the non-zero slots among the first 100.\<close>

definition GetState ::
  "'s geth \<Rightarrow> ('tx, 'blk, StateMeta) BlockchainDB \<Rightarrow> string \<Rightarrow> 's EVMExecutor
     \<Rightarrow> (xerror + AccountState, 's EVMExecutor) run" where
  "GetState G db address e =
     (if \<not> running e then Done (Inl NotRunning) e
      else
        (let addr = HexToAddress G address;
             (sdb, e1) = getStateDB G db e
         in case sdb of
              None \<Rightarrow> Panicked e1
            | Some s \<Rightarrow>
                Done (Inr \<lparr>asAddress = address,
                           Balance = decimal (GetBalance G s addr),
                           asNonce = GetNonce G s addr,
                           CodeHash = HashHex G (GetCodeHash G s addr),
                           Storage =
                             map (\<lambda>i. (HashHex G (word_of_nat i),
                                        HashHex G (GetStorageAt G s addr (word_of_nat i))))
                               (filter (\<lambda>i. GetStorageAt G s addr (word_of_nat i) \<noteq> 0)
                                  [0..<100])\<rparr>) e1))"

definition FundAccount ::
  "'s geth \<Rightarrow> ('tx, 'blk, StateMeta) BlockchainDB \<Rightarrow> string \<Rightarrow> string \<Rightarrow> 's EVMExecutor
     \<Rightarrow> (xerror option, 's EVMExecutor) run" where
  "FundAccount G db address amount e =
     (if \<not> running e then Done (Some NotRunning) e
      else
        (let (sdb, e1) = getStateDB G db e
         in case SetString10 amount of
              None \<Rightarrow> Done (Some (InvalidValue amount)) e1
            | Some amountBig \<Rightarrow>
                (case sdb of
                   None \<Rightarrow> Panicked e1
                 | Some s \<Rightarrow>
                     Done None (writeExec e1
                       (AddBalance G s (HexToAddress G address) (nat (amountBig mod 2 ^ 256)))))))"

text \<open>The transaction \<open>DeployContract\<close> builds: an empty \<open>To\<close>, value 0.\<close>

definition deployTx :: "string \<Rightarrow> bytes \<Rightarrow> 64 word \<Rightarrow> string \<Rightarrow> 64 word \<Rightarrow> Transaction" where
  "deployTx from contractData gasLimit gasPrice nonce =
     \<lparr>Hash = [], From = from, To = [], Value = ''0'', Data = contractData,
      GasLimit = gasLimit, GasPrice = gasPrice, Nonce = nonce, Signature = []\<rparr>"

definition DeployContract ::
  "'s geth \<Rightarrow> ('tx, 'blk, StateMeta) BlockchainDB \<Rightarrow> string \<Rightarrow> bytes \<Rightarrow> bytes \<Rightarrow> 64 word \<Rightarrow> string
     \<Rightarrow> 's EVMExecutor \<Rightarrow> (xerror + string \<times> ExecutionResult, 's EVMExecutor) run" where
  "DeployContract G db from code constructorArgs gasLimit gasPrice e =
     (if \<not> running e then Done (Inl NotRunning) e
      else
        (let fromAddr = HexToAddress G from;
             contractData = code @ constructorArgs;
             (sdb, e1) = getStateDB G db e;
             nonce = (case sdb of None \<Rightarrow> 0 | Some s \<Rightarrow> GetNonce G s (HexToAddress G from))
         in case ExecuteTransaction G db (deployTx from contractData gasLimit gasPrice nonce) e1 of
              Done (Inl err) e2 \<Rightarrow> Done (Inl (DeployExecError err)) e2
            | Done (Inr result) e2 \<Rightarrow>
                if \<not> Success result then Done (Inl (DeployFailed (Error result))) e2
                else Done (Inr (AddressHex G (CreateAddress G fromAddr nonce), result)) e2
            | Blocked e2 \<Rightarrow> Blocked e2
            | Panicked e2 \<Rightarrow> Panicked e2))"

text \<open>
  \<open>StateManager.SaveState\<close>: commit the manager's object, point the manager to the state
  reloaded from the new root (to whatever \<open>LoadState\<close> gives when that fails), write root,
  height and timestamp under \<open>state_meta\<close>.
\<close>

definition getCurrentHeight :: "('tx, 'blk, 'meta) BlockchainDB \<Rightarrow> nat" where
  "getCurrentHeight db = (case dbLatestHeight db of None \<Rightarrow> 0 | Some h \<Rightarrow> h)"

definition getCurrentTimestamp :: "('tx, Block, 'meta) BlockchainDB \<Rightarrow> int" where
  "getCurrentTimestamp db =
     (case dbLatestHeight db of
        None \<Rightarrow> 0
      | Some h \<Rightarrow> (case dbBlocks db h of None \<Rightarrow> 0 | Some b \<Rightarrow> Timestamp (Header b)))"

definition smSaveState ::
  "'s geth \<Rightarrow> ('tx, Block, StateMeta) BlockchainDB \<Rightarrow> 's EVMExecutor
     \<Rightarrow> xerror option \<times> 's EVMExecutor \<times> ('tx, Block, StateMeta) BlockchainDB" where
  "smSaveState G db e =
     (case smStateDB e of
        None \<Rightarrow> (Some StateDBNotInitialised, e, db)
      | Some s \<Rightarrow>
          (let (root, s1) = IntermediateRoot G s;
               (ok, s2) = StateCommit G s1;
               e1 = writeSm e s2
           in if \<not> ok then (Some CommitFailed, e1, db)
              else
                (let e2 = (case StateNew G root of
                             Some newStateDB \<Rightarrow> e1\<lparr>smStateDB := Some newStateDB, shared := False\<rparr>
                           | None \<Rightarrow>
                               (case LoadState G db e1 of
                                  (None, e') \<Rightarrow> e'\<lparr>smStateDB := None, shared := False\<rparr>
                                | (Some s', e') \<Rightarrow> e'));
                     db1 = db\<lparr>dbState := Some \<lparr>metaRoot = root, metaHeight = int (getCurrentHeight db),
                                               metaAppHash = None,
                                               metaTimestamp = Some (getCurrentTimestamp db)\<rparr>\<rparr>
                 in (None, e2\<lparr>smStateRoot := root\<rparr>, db1))))"

text \<open>\<open>StateManager.GetRootHash\<close>: the zero hash when the manager has no state object.\<close>

definition GetRootHash :: "'s geth \<Rightarrow> 's EVMExecutor \<Rightarrow> hash \<times> 's EVMExecutor" where
  "GetRootHash G e =
     (case smStateDB e of
        None \<Rightarrow> (0, e)
      | Some s \<Rightarrow> (let (root, s1) = IntermediateRoot G s in (root, writeSm e s1)))"

subsection \<open>abci_app.go: the application\<close>

text \<open>
  What the application uses of \<open>encoding/json\<close>, \<open>fmt\<close> and the repository's package
  \<open>internal/crypto\<close> (not among the sources): parameters. \<open>UnmarshalTx\<close> is \<open>None\<close> on a
  decoding error, \<open>VerifyTransactionSignature\<close> is true when no error is returned,
  \<open>CalculateTransactionHash\<close> gives the hash as a hex string, \<open>ScanHeight\<close> is
  \<open>fmt.Sscanf(s, "%d", &height)\<close> into a height that starts as 0.
\<close>

record AppState =
  Height :: int
  AppHash :: hash
  Validators :: "ValidatorUpdate list"

record ext =
  UnmarshalTx :: "bytes \<Rightarrow> Transaction option"
  MarshalAppState :: "AppState \<Rightarrow> bytes"
  VerifyTransactionSignature :: "Transaction \<Rightarrow> bool"
  CalculateTransactionHash :: "Transaction \<Rightarrow> string option"
  ScanHeight :: "string \<Rightarrow> nat"

datatype txerror =
  EmptyFrom | BadFrom string | BadTo string | NoHash | NonceTooLow
  | AccountNotFound string | InvalidValueField string | InvalidBalance string
  | InvalidGasPriceField string | InsufficientBalance int int
  | NoSignature | BadSignature | HashError | HashMismatch string string

datatype reply_log =
  LogOK | DecodeError | InvalidTransaction txerror | ExecutionError xerror
  | ExecutionFailed string | BalanceError xerror | AccountError xerror
  | TransactionNotFound string | BlockNotFound nat | UnknownPath string | NoLog

datatype event = ExecutionEvent bool "64 word" | ContractLogEvent string

datatype query_value =
  NoValue | HeightValue "64 word" | BalanceValue string string | AccountValue AccountState
  | TxValue Transaction | BlockValue Block

record ExecTxResult =
  etrCode :: nat
  etrLog :: reply_log
  etrGasUsed :: int
  etrEvents :: "event list"


record QueryResponse =
  qCode :: nat
  qValue :: query_value
  qLog :: reply_log

record InfoResponse =
  LastBlockHeight :: int
  LastBlockAppHash :: hash

record FinalizeBlockRequest =
  reqHeight :: int
  reqTime :: int
  reqTxs :: "bytes list"

record FinalizeBlockResponse =
  TxResults :: "ExecTxResult list"
  ValidatorUpdates :: "ValidatorUpdate list"

record InitChainResponse =
  icValidators :: "ValidatorUpdate list"
  icAppHash :: hash

text \<open>
  \<open>ABCIApp\<close>. The store is the one object the application, the state manager and the
  validator set all point to: it lives here and is handed to their operations. The
  metrics are counters and are left out. The mempool callbacks are nil until the node sets
  them (\<open>None\<close>); \<open>clearMempoolTx\<close> drops the transaction of a hash from the local mempool.
\<close>

record 's ABCIApp =
  storage :: DB
  executor :: "'s EVMExecutor"
  appValidators :: "ValidatorSet option"
  state :: AppState
  currentBlockHeight :: "64 word"
  currentBlockTime :: int
  currentBlockTxs :: "Transaction list"
  currentBlockReceipts :: "TransactionReceipt list"
  chainID :: string
  mempool :: "Transaction list option"

definition NewABCIApp ::
  "DB \<Rightarrow> 's EVMExecutor \<Rightarrow> ValidatorSet option \<Rightarrow> string \<Rightarrow> 's ABCIApp" where
  "NewABCIApp db ex vs cid =
     \<lparr>storage = db, executor = ex, appValidators = vs,
      state = \<lparr>Height = 0, AppHash = 0, Validators = []\<rparr>,
      currentBlockHeight = 0, currentBlockTime = 0, currentBlockTxs = [],
      currentBlockReceipts = [], chainID = cid, mempool = None\<rparr>"

definition Info :: "'s ABCIApp \<Rightarrow> InfoResponse" where
  "Info app =
     \<lparr>LastBlockHeight = Height (state app), LastBlockAppHash = AppHash (state app)\<rparr>"

definition clearMempoolTx :: "string \<Rightarrow> 's ABCIApp \<Rightarrow> 's ABCIApp" where
  "clearMempoolTx h app =
     app\<lparr>mempool := map_option (filter (\<lambda>t. Hash t \<noteq> h)) (mempool app)\<rparr>"

definition validateTransaction :: "Transaction \<Rightarrow> txerror option" where
  "validateTransaction tx =
     (if From tx = [] then Some EmptyFrom
      else if \<not> IsHexAddress (From tx) then Some (BadFrom (From tx))
      else if To tx \<noteq> [] \<and> \<not> IsHexAddress (To tx) then Some (BadTo (To tx))
      else None)"





text \<open>
  \<open>Query\<close>. The cases are tried in the order of the \<open>switch\<close>; \<open>path[:n]\<close> is \<open>take n\<close>
  (guarded by the length test before it).
\<close>

definition Query ::
  "ext \<Rightarrow> 's geth \<Rightarrow> string \<Rightarrow> 's ABCIApp \<Rightarrow> (QueryResponse, 's ABCIApp) run" where
  "Query X G path app =
     (if path = ''height'' then
        Done \<lparr>qCode = 0, qValue = HeightValue (word_of_int (Height (state app))), qLog = NoLog\<rparr> app
      else if length path > 8 \<and> take 8 path = ''balance/'' then
        (case GetState G (storage app) (drop 8 path) (executor app) of
           Blocked e1 \<Rightarrow> Blocked (app\<lparr>executor := e1\<rparr>)
         | Panicked e1 \<Rightarrow> Panicked (app\<lparr>executor := e1\<rparr>)
         | Done (Inl err) e1 \<Rightarrow>
             Done \<lparr>qCode = 1, qValue = NoValue, qLog = BalanceError err\<rparr> (app\<lparr>executor := e1\<rparr>)
         | Done (Inr accountState) e1 \<Rightarrow>
             Done \<lparr>qCode = 0, qValue = BalanceValue (drop 8 path) (Balance accountState),
                   qLog = NoLog\<rparr> (app\<lparr>executor := e1\<rparr>))
      else if length path > 7 \<and> take 7 path = ''account/'' then
        (case GetState G (storage app) (drop 7 path) (executor app) of
           Blocked e1 \<Rightarrow> Blocked (app\<lparr>executor := e1\<rparr>)
         | Panicked e1 \<Rightarrow> Panicked (app\<lparr>executor := e1\<rparr>)
         | Done (Inl err) e1 \<Rightarrow>
             Done \<lparr>qCode = 1, qValue = NoValue, qLog = AccountError err\<rparr> (app\<lparr>executor := e1\<rparr>)
         | Done (Inr accountState) e1 \<Rightarrow>
             Done \<lparr>qCode = 0, qValue = AccountValue accountState, qLog = NoLog\<rparr>
               (app\<lparr>executor := e1\<rparr>))
      else if length path > 3 \<and> take 3 path = ''tx/'' then
        (case dbTransactions (storage app) (drop 3 path) of
           None \<Rightarrow>
             Done \<lparr>qCode = 1, qValue = NoValue, qLog = TransactionNotFound (drop 3 path)\<rparr> app
         | Some txData \<Rightarrow> Done \<lparr>qCode = 0, qValue = TxValue txData, qLog = NoLog\<rparr> app)
      else if length path > 6 \<and> take 6 path = ''block/'' then
        (let height = ScanHeight X (drop 6 path)
         in case dbBlocks (storage app) height of
              None \<Rightarrow> Done \<lparr>qCode = 1, qValue = NoValue, qLog = BlockNotFound height\<rparr> app
            | Some blockData \<Rightarrow>
                Done \<lparr>qCode = 0, qValue = BlockValue blockData, qLog = NoLog\<rparr> app)
      else Done \<lparr>qCode = 1, qValue = NoValue, qLog = UnknownPath path\<rparr> app)"

text \<open>
  \<open>hasValidatorChanges\<close>. The two Go maps from \<open>string(PubKeyBytes)\<close> to power are
  association lists, filled in the order of the slices, a later entry replacing the power
  of an earlier one with the same key. The loops range over the maps, here in the order of
  the lists (Go fixes no order; the maps the program builds never hold more than one key,
  see \<open>toUpdates\<close>). The log line of a changed power and the one of a removed validator
  slice \<open>key[:8]\<close>, which panics when the key has fewer than 8 bytes.
\<close>

definition powerMap :: "ValidatorUpdate list \<Rightarrow> (bytes \<times> int) list" where
  "powerMap vals = foldl (\<lambda>m v. AList.update (PubKeyBytes v) (updPower v) m) [] vals"

fun newOrChanged :: "(bytes \<times> int) list \<Rightarrow> (bytes \<times> int) list \<Rightarrow> (bool, unit) run" where
  "newOrChanged currentMap [] = Done False ()"
| "newOrChanged currentMap ((key, newPower) # rest) =
     (case map_of currentMap key of
        None \<Rightarrow> Done True ()
      | Some currentPower \<Rightarrow>
          if currentPower \<noteq> newPower then
            (if length key < 8 then Panicked () else Done True ())
          else newOrChanged currentMap rest)"

fun removedKey :: "(bytes \<times> int) list \<Rightarrow> (bytes \<times> int) list \<Rightarrow> (bool, unit) run" where
  "removedKey updatesMap [] = Done False ()"
| "removedKey updatesMap ((key, currentPower) # rest) =
     (case map_of updatesMap key of
        None \<Rightarrow> (if length key < 8 then Panicked () else Done True ())
      | Some newPower \<Rightarrow> removedKey updatesMap rest)"

definition hasValidatorChanges ::
  "ValidatorUpdate list \<Rightarrow> ValidatorUpdate list \<Rightarrow> (bool, unit) run" where
  "hasValidatorChanges current updates =
     (if length current \<noteq> length updates then Done True ()
      else
        (let currentMap = powerMap current; updatesMap = powerMap updates
         in case newOrChanged currentMap updatesMap of
              Done False u \<Rightarrow> removedKey updatesMap currentMap
            | r \<Rightarrow> r))"

text \<open>
  The rotation at the end of \<open>FinalizeBlock\<close>: at a positive multiple of 100 the set as
  \<open>ToCometBFTValidators\<close> gives it now is compared with what \<open>RotateValidators\<close> gives.
\<close>

definition rotateIfDue ::
  "int \<Rightarrow> ValidatorSet option \<Rightarrow> (ValidatorUpdate list, ValidatorSet option) run" where
  "rotateIfDue height vso =
     (if height > 0 \<and> height mod 100 = 0 then
        (case vso of
           None \<Rightarrow> Done [] None
         | Some vs \<Rightarrow>
             (case ToCometBFTValidators vs of
                Blocked vs1 \<Rightarrow> Blocked (Some vs1)
              | Panicked vs1 \<Rightarrow> Panicked (Some vs1)
              | Done currentValidators vs1 \<Rightarrow>
                  if length currentValidators \<le> 1 then Done [] (Some vs1)
                  else
                    (case RotateValidators vs1 of
                       Blocked vs2 \<Rightarrow> Blocked (Some vs2)
                     | Panicked vs2 \<Rightarrow> Panicked (Some vs2)
                     | Done updates vs2 \<Rightarrow>
                         if length updates > 0 then
                           (case hasValidatorChanges currentValidators updates of
                              Blocked u \<Rightarrow> Blocked (Some vs2)
                            | Panicked u \<Rightarrow> Panicked (Some vs2)
                            | Done changed u \<Rightarrow>
                                if changed then Done updates (Some vs2)
                                else Done [] (Some vs2))
                         else Done [] (Some vs2))))
      else Done [] vso)"

definition executionTx :: "Transaction \<Rightarrow> Transaction" where
  "executionTx tx = tx\<lparr>Signature := []\<rparr>"

definition buildEvents :: "ExecutionResult \<Rightarrow> event list" where
  "buildEvents result =
     ExecutionEvent (Success result) (GasUsed result)
       # map (\<lambda>l. ContractLogEvent (xlAddress l)) (Logs result)"

definition convertLogs :: "ExecLog list \<Rightarrow> Log list" where
  "convertLogs execLogs =
     map (\<lambda>l. \<lparr>logAddress = xlAddress l, logTopics = xlTopics l, logData = xlData l,
                logBlockNumber = 0, logTxHash = []\<rparr>) execLogs"

text \<open>
  The loop of \<open>FinalizeBlock\<close> over the transactions of the block. A transaction that
  executes with success is written to the store at once, under its hash.
\<close>

fun processTxs ::
  "ext \<Rightarrow> 's geth \<Rightarrow> bytes list \<Rightarrow> ExecTxResult list \<Rightarrow> 's ABCIApp
     \<Rightarrow> (ExecTxResult list, 's ABCIApp) run" where
  "processTxs X G [] txResults app = Done txResults app"
| "processTxs X G (txBytes # rest) txResults app =
     (case UnmarshalTx X txBytes of
        None \<Rightarrow>
          processTxs X G rest
            (txResults @ [\<lparr>etrCode = 1, etrLog = DecodeError, etrGasUsed = 0, etrEvents = []\<rparr>]) app
      | Some tx \<Rightarrow>
          (case validateTransaction tx of
             Some err \<Rightarrow>
               processTxs X G rest
                 (txResults @ [\<lparr>etrCode = 2, etrLog = InvalidTransaction err, etrGasUsed = 0,
                                etrEvents = []\<rparr>]) app
           | None \<Rightarrow>
               (case ExecuteTransaction G (storage app) (executionTx tx) (executor app) of
                  Blocked e1 \<Rightarrow> Blocked (app\<lparr>executor := e1\<rparr>)
                | Panicked e1 \<Rightarrow> Panicked (app\<lparr>executor := e1\<rparr>)
                | Done (Inl err) e1 \<Rightarrow>
                    processTxs X G rest
                      (txResults @ [\<lparr>etrCode = 3, etrLog = ExecutionError err, etrGasUsed = 0,
                                     etrEvents = []\<rparr>]) (app\<lparr>executor := e1\<rparr>)
                | Done (Inr result) e1 \<Rightarrow>
                    if \<not> Success result then
                      processTxs X G rest
                        (txResults @ [\<lparr>etrCode = 4, etrLog = ExecutionFailed (Error result),
                                       etrGasUsed = sint (GasUsed result),
                                       etrEvents = buildEvents result\<rparr>])
                        (clearMempoolTx (Hash tx) (app\<lparr>executor := e1\<rparr>))
                    else
                      (let app1 = app\<lparr>executor := e1,
                             storage := (storage app)\<lparr>dbTransactions :=
                               (dbTransactions (storage app))(Hash tx \<mapsto> tx)\<rparr>\<rparr>;
                           app2 = app1\<lparr>currentBlockTxs := currentBlockTxs app1 @ [tx]\<rparr>;
                           app3 = clearMempoolTx (Hash tx) app2;
                           receipt = \<lparr>TransactionHash = Hash tx,
                                      BlockNumber = currentBlockHeight app3,
                                      rcGasUsed = GasUsed result, Status = ''success'',
                                      rcLogs = convertLogs (Logs result),
                                      rcError = Error result\<rparr>;
                           app4 = app3\<lparr>currentBlockReceipts := currentBlockReceipts app3 @ [receipt]\<rparr>
                       in processTxs X G rest
                            (txResults @ [\<lparr>etrCode = 0, etrLog = LogOK,
                                           etrGasUsed = sint (GasUsed result),
                                           etrEvents = buildEvents result\<rparr>]) app4))))"

definition FinalizeBlock ::
  "ext \<Rightarrow> 's geth \<Rightarrow> FinalizeBlockRequest \<Rightarrow> 's ABCIApp
     \<Rightarrow> (FinalizeBlockResponse, 's ABCIApp) run" where
  "FinalizeBlock X G req app =
     (let app1 = app\<lparr>state := (state app)\<lparr>Height := reqHeight req\<rparr>,
                     currentBlockHeight := word_of_int (reqHeight req),
                     currentBlockTime := reqTime req,
                     currentBlockTxs := [], currentBlockReceipts := [],
                     executor := SetCurrentBlockInfo (word_of_int (reqHeight req)) (reqTime req)
                                   (executor app)\<rparr>
      in case processTxs X G (reqTxs req) [] app1 of
           Blocked app2 \<Rightarrow> Blocked app2
         | Panicked app2 \<Rightarrow> Panicked app2
         | Done txResults app2 \<Rightarrow>
             (case rotateIfDue (reqHeight req) (appValidators app2) of
                Blocked vso \<Rightarrow> Blocked (app2\<lparr>appValidators := vso\<rparr>)
              | Panicked vso \<Rightarrow> Panicked (app2\<lparr>appValidators := vso\<rparr>)
              | Done validatorUpdates vso \<Rightarrow>
                  Done \<lparr>TxResults = txResults, ValidatorUpdates = validatorUpdates\<rparr>
                    (app2\<lparr>appValidators := vso\<rparr>)))"

text \<open>\<open>saveBlock\<close>: the block under its height, then the latest height.\<close>

definition saveBlock :: "hash \<Rightarrow> 's geth \<Rightarrow> 's ABCIApp \<Rightarrow> 's ABCIApp" where
  "saveBlock blockHash G app =
     (let h = unat (currentBlockHeight app);
          parentHash =
            (if currentBlockHeight app > 0 then
               (case dbBlocks (storage app) (unat (currentBlockHeight app - 1)) of
                  None \<Rightarrow> []
                | Some parentBlock \<Rightarrow> bhHash (Header parentBlock))
             else []);
          block = \<lparr>Header = \<lparr>bhHeight = currentBlockHeight app, bhHash = HashHex G blockHash,
                               ParentHash = parentHash, Timestamp = currentBlockTime app,
                               ChainID = chainID app\<rparr>,
                   Transactions = currentBlockTxs app, Receipts = currentBlockReceipts app\<rparr>
      in app\<lparr>storage := (storage app)\<lparr>dbBlocks := (dbBlocks (storage app))(h \<mapsto> block),
                                       dbLatestHeight := Some h\<rparr>\<rparr>)"

text \<open>
  \<open>Commit\<close>. The app hash is the root the state manager reports, unless that is the zero
  hash: then it is the Keccak-256 of the JSON encoding of the application state.
\<close>

definition commitAppHash :: "ext \<Rightarrow> 's geth \<Rightarrow> hash \<Rightarrow> AppState \<Rightarrow> hash" where
  "commitAppHash X G stateRoot st =
     (if stateRoot \<noteq> 0 then stateRoot else Keccak256 G (MarshalAppState X st))"

definition Commit :: "ext \<Rightarrow> 's geth \<Rightarrow> 's ABCIApp \<Rightarrow> 's ABCIApp" where
  "Commit X G app =
     (let (err, e1, db1) = smSaveState G (storage app) (executor app);
          (stateRoot, e2) = GetRootHash G e1;
          appHash = commitAppHash X G stateRoot (state app);
          db2 = db1\<lparr>dbState := Some \<lparr>metaRoot = stateRoot, metaHeight = Height (state app),
                                    metaAppHash = Some appHash, metaTimestamp = None\<rparr>\<rparr>;
          app1 = app\<lparr>executor := e2, storage := db2\<rparr>;
          app2 = (if currentBlockHeight app1 > 0 then saveBlock appHash G app1 else app1)
      in app2\<lparr>state := (state app2)\<lparr>AppHash := appHash\<rparr>\<rparr>)"

text \<open>
  \<open>InitChain\<close>. The stake of a genesis validator is its power times \<open>10^18\<close>; the set the
  response hands to the engine, kept in \<open>state.Validators\<close>, is the genesis list whenever
  that is not empty.
\<close>

definition genesisOf :: "'s geth \<Rightarrow> ValidatorUpdate \<Rightarrow> GenesisValidator" where
  "genesisOf G v =
     \<lparr>gvAddress = AddressHex G (BytesToAddress G (PubKeyBytes v)), gvPubKey = PubKeyBytes v,
      gvStake = updPower v * 10 ^ 18\<rparr>"

definition InitChain ::
  "'s geth \<Rightarrow> ValidatorUpdate list \<Rightarrow> int \<Rightarrow> 's ABCIApp
     \<Rightarrow> (InitChainResponse, 's ABCIApp) run" where
  "InitChain G reqValidators now app =
     (case appValidators app of
        None \<Rightarrow>
          Done \<lparr>icValidators = reqValidators, icAppHash = AppHash (state app)\<rparr>
            (app\<lparr>state := (state app)\<lparr>Validators := reqValidators\<rparr>\<rparr>)
      | Some vs \<Rightarrow>
          (case LoadValidators vs (storage app) of
             Blocked vs1 \<Rightarrow> Blocked (app\<lparr>appValidators := Some vs1\<rparr>)
           | Panicked vs1 \<Rightarrow> Panicked (app\<lparr>appValidators := Some vs1\<rparr>)
           | Done err vs1 \<Rightarrow>
          (case GetActiveValidators vs1 of
             Blocked vs2 \<Rightarrow> Blocked (app\<lparr>appValidators := Some vs2\<rparr>)
           | Panicked vs2 \<Rightarrow> Panicked (app\<lparr>appValidators := Some vs2\<rparr>)
           | Done active vs2 \<Rightarrow>
          (case (if active = []
                 then InitializeGenesisValidators (map (genesisOf G) reqValidators) now vs2
                        (storage app)
                 else Done None (vs2, storage app)) of
             Blocked (vs3, db3) \<Rightarrow> Blocked (app\<lparr>appValidators := Some vs3, storage := db3\<rparr>)
           | Panicked (vs3, db3) \<Rightarrow> Panicked (app\<lparr>appValidators := Some vs3, storage := db3\<rparr>)
           | Done err3 (vs3, db3) \<Rightarrow>
               if length reqValidators > 0 then
                 Done \<lparr>icValidators = reqValidators, icAppHash = AppHash (state app)\<rparr>
                   (app\<lparr>appValidators := Some vs3, storage := db3,
                        state := (state app)\<lparr>Validators := reqValidators\<rparr>\<rparr>)
               else
                 (case GetValidators vs3 of
                    Blocked vs4 \<Rightarrow> Blocked (app\<lparr>appValidators := Some vs4, storage := db3\<rparr>)
                  | Panicked vs4 \<Rightarrow> Panicked (app\<lparr>appValidators := Some vs4, storage := db3\<rparr>)
                  | Done allValidators vs4 \<Rightarrow>
                 (case GetActiveValidators vs4 of
                    Blocked vs5 \<Rightarrow> Blocked (app\<lparr>appValidators := Some vs5, storage := db3\<rparr>)
                  | Panicked vs5 \<Rightarrow> Panicked (app\<lparr>appValidators := Some vs5, storage := db3\<rparr>)
                  | Done active5 vs5 \<Rightarrow>
                 (case ToCometBFTValidators vs5 of
                    Blocked vs6 \<Rightarrow> Blocked (app\<lparr>appValidators := Some vs6, storage := db3\<rparr>)
                  | Panicked vs6 \<Rightarrow> Panicked (app\<lparr>appValidators := Some vs6, storage := db3\<rparr>)
                  | Done updates vs6 \<Rightarrow>
                      Done \<lparr>icValidators = updates, icAppHash = AppHash (state app)\<rparr>
                        (app\<lparr>appValidators := Some vs6, storage := db3,
                             state := (state app)\<lparr>Validators := updates\<rparr>\<rparr>))))))))"

text \<open>
  What a sequence of calls may change in the store when it writes nothing but decoded
  transactions of the given block under their hashes: blocks, state metadata, latest
  height and validator list stay, and every entry under \<open>tx/\<close> either stays or is such a
  transaction.
\<close>

definition onlyTransactionsWritten ::
  "ext \<Rightarrow> bytes list \<Rightarrow> DB \<Rightarrow> DB \<Rightarrow> bool" where
  "onlyTransactionsWritten X raws db db' =
     (dbBlocks db' = dbBlocks db \<and> dbState db' = dbState db
      \<and> dbLatestHeight db' = dbLatestHeight db \<and> dbValidatorsSet db' = dbValidatorsSet db
      \<and> (\<forall>h. dbTransactions db' h = dbTransactions db h
               \<or> (\<exists>raw \<in> set raws. \<exists>tx. UnmarshalTx X raw = Some tx \<and> Hash tx = h
                     \<and> dbTransactions db' h = Some tx)))"

text \<open>What the loop over the transactions leaves alone in the application.\<close>

definition kept :: "'s ABCIApp \<Rightarrow> 's ABCIApp \<Rightarrow> bool" where
  "kept app app' = (state app' = state app \<and> appValidators app' = appValidators app
     \<and> currentBlockHeight app' = currentBlockHeight app)"

subsection \<open>Concrete inputs\<close>

text \<open>One OXG is \<open>10^18\<close> units of stake.\<close>

definition OXG :: int where "OXG = 10 ^ 18"

definition key_a :: bytes where "key_a = replicate 32 1"
definition key_b :: bytes where "key_b = replicate 32 2"
definition gv_a :: GenesisValidator where
  "gv_a = \<lparr>gvAddress = ''0xA'', gvPubKey = key_a, gvStake = 20 * OXG\<rparr>"
definition gv_b :: GenesisValidator where
  "gv_b = \<lparr>gvAddress = ''0xB'', gvPubKey = key_b, gvStake = 30 * OXG\<rparr>"

definition val_a :: Validator where "val_a = newValidator ''0xA'' key_a (20 * OXG) 0"
definition val_b :: Validator where "val_b = newValidator ''0xB'' key_b (30 * OXG) 0"

definition vs_two :: "int \<Rightarrow> ValidatorSet" where
  "vs_two maxV = \<lparr>validators = [(''0xA'', val_a), (''0xB'', val_b)], mutex = Unlocked,
     minStake = 10 * OXG, maxValidators = maxV\<rparr>"

subsection \<open>Stand-ins for the libraries, and concrete inputs\<close>

text \<open>
  A stand-in for go-ethereum that records what it is asked to run: the state object is the
  list of the messages applied so far. Every account has balance 0, nonce 0 and no code,
  every message succeeds with 21000 gas. \<open>HexToAddress\<close> reads the hexadecimal digits after
  an optional \<open>0x\<close> modulo \<open>2^160\<close>, so the empty string is the zero address, as in the
  library; \<open>BytesToAddress\<close> keeps the last byte; \<open>CreateAddress\<close>, the hex renderings and
  \<open>Keccak256\<close> are injective placeholders, not the real hashes.
\<close>

definition hexDigit :: "char \<Rightarrow> nat" where
  "hexDigit c =
     (let n = (of_char c :: nat)
      in if 48 \<le> n \<and> n \<le> 57 then n - 48
         else if 97 \<le> n \<and> n \<le> 102 then n - 87
         else if 65 \<le> n \<and> n \<le> 70 then n - 55
         else 0)"

definition hexNumber :: "string \<Rightarrow> nat" where
  "hexNumber s =
     foldl (\<lambda>a c. 16 * a + hexDigit c) 0 (if has0xPrefix s then drop 2 s else s)"

definition recGeth :: "(Message list) geth" where
  "recGeth =
     \<lparr>OpenState = (\<lambda>root. Some []),
      StateNew = (\<lambda>root. Some []),
      IntermediateRoot = (\<lambda>s. (word_of_nat (length s) + 1, s)),
      StateCommit = (\<lambda>s. (True, s)),
      GetBalance = (\<lambda>s a. 0),
      GetNonce = (\<lambda>s a. 0),
      GetCodeHash = (\<lambda>s a. 0),
      GetStorageAt = (\<lambda>s a k. 0),
      AddBalance = (\<lambda>s a n. s),
      Finalise = (\<lambda>s. s),
      StateLogs = (\<lambda>s. []),
      ApplyMessage = (\<lambda>ctx msg s.
        ((Some \<lparr>UsedGas = 21000, Failed = False, arReturnData = []\<rparr>, None), s @ [msg])),
      HexToAddress = (\<lambda>s. word_of_nat (hexNumber s)),
      BytesToAddress = (\<lambda>bs. if bs = [] then 0 else ucast (last bs)),
      CreateAddress = (\<lambda>a n. a + ucast n + 1),
      AddressHex = (\<lambda>a. decimal (unat a)),
      HashHex = (\<lambda>h. decimal (unat h)),
      Keccak256 = (\<lambda>bs. word_of_nat (length bs) + 1)\<rparr>"

text \<open>An executor after \<open>Start\<close> on the empty store, with the recording library.\<close>

definition startedExecutor :: "(Message list) EVMExecutor" where
  "startedExecutor =
     \<lparr>smStateDB = Some [], smStateRoot = 0, stateDB = Some [], shared = True,
      currentHeight = 0, currentTimestamp = 0, running = True\<rparr>"

definition sender :: string where
  "sender = ''0x0000000000000000000000000000000000000001''"

definition receiver :: string where
  "receiver = ''0x0000000000000000000000000000000000000002''"

text \<open>
  Two accounts that are not precompiled contracts, for a transfer that the virtual machine
  runs.
\<close>

definition payer :: string where
  "payer = ''0x1000000000000000000000000000000000000001''"

definition payee :: string where
  "payee = ''0x1000000000000000000000000000000000000002''"

text \<open>
  A transfer of value 0 with gas limit 21000 and gas price \<open>10^9\<close>, and a transfer of value
  0 at gas price 0 from \<open>payer\<close> to \<open>payee\<close>; \<open>rawGasOnly\<close> and \<open>rawFree\<close> are their
  encodings.
\<close>

definition txGasOnly :: Transaction where
  "txGasOnly =
     \<lparr>Hash = ''h1'', From = sender, To = receiver, Value = ''0'', Data = [],
      GasLimit = 21000, GasPrice = ''1000000000'', Nonce = 0, Signature = [1]\<rparr>"

definition txFree :: Transaction where
  "txFree =
     \<lparr>Hash = ''h2'', From = payer, To = payee, Value = ''0'', Data = [],
      GasLimit = 21000, GasPrice = ''0'', Nonce = 0, Signature = [1]\<rparr>"

definition txPaid :: Transaction where
  "txPaid =
     \<lparr>Hash = ''h3'', From = sender, To = receiver, Value = ''5'', Data = [],
      GasLimit = 21000, GasPrice = ''1'', Nonce = 0, Signature = [1]\<rparr>"

definition rawGasOnly :: bytes where "rawGasOnly = [1]"
definition rawFree :: bytes where "rawFree = [2]"
definition rawPaid :: bytes where "rawPaid = [3]"

text \<open>
  A stand-in for the decoder and the signature package under which the three transactions
  above decode from their encodings, are validly signed and carry the right hash.
\<close>

definition stdExt :: ext where
  "stdExt =
     \<lparr>UnmarshalTx = (\<lambda>raw. if raw = rawGasOnly then Some txGasOnly
                           else if raw = rawFree then Some txFree
                           else if raw = rawPaid then Some txPaid
                           else None),
      MarshalAppState = (\<lambda>st. []),
      VerifyTransactionSignature = (\<lambda>tx. Signature tx = [1]),
      CalculateTransactionHash = (\<lambda>tx. Some (Hash tx)),
      ScanHeight = (\<lambda>s. 0)\<rparr>"

definition startedApp :: "(Message list) ABCIApp" where
  "startedApp = NewABCIApp emptyDB startedExecutor None ''oxy''"

text \<open>A genesis of three validators of power 5, 20 and 20, and an application over a set
  with a minimum stake of 10 OXG.\<close>

definition keyOf :: "8 word \<Rightarrow> bytes" where
  "keyOf b = replicate 31 0 @ [b]"

definition genesisUpdates :: "ValidatorUpdate list" where
  "genesisUpdates =
     [\<lparr>PubKeyBytes = keyOf 1, updPower = 5\<rparr>, \<lparr>PubKeyBytes = keyOf 2, updPower = 20\<rparr>,
      \<lparr>PubKeyBytes = keyOf 3, updPower = 20\<rparr>]"

definition genesisApp :: "(Message list) ABCIApp" where
  "genesisApp =
     NewABCIApp emptyDB startedExecutor (Some (NewValidatorSet (10 * OXG) 100)) ''oxy''"

text \<open>Block 1 with the free transfer; block 4, empty, finalized and committed.\<close>

definition blockOne :: FinalizeBlockRequest where
  "blockOne = \<lparr>reqHeight = 1, reqTime = 0, reqTxs = [rawFree]\<rparr>"

definition blockFour :: FinalizeBlockRequest where
  "blockFour = \<lparr>reqHeight = 4, reqTime = 0, reqTxs = []\<rparr>"

definition finalizedFour :: "(Message list) ABCIApp" where
  "finalizedFour = final_state (FinalizeBlock stdExt recGeth blockFour startedApp)"

definition committedFour :: "(Message list) ABCIApp" where
  "committedFour = Commit stdExt recGeth finalizedFour"

text \<open>The application a restart builds over the store block 4 left.\<close>

definition restartedFour :: "(Message list) ABCIApp" where
  "restartedFour =
     NewABCIApp (storage committedFour)
       (snd (Start recGeth (storage committedFour) NewEVMExecutor)) None ''oxy''"

text \<open>
  An application over an executor that was never started, so that its state manager holds
  no state object, after block 4.
\<close>

definition unstartedApp :: "(Message list) ABCIApp" where
  "unstartedApp = NewABCIApp emptyDB NewEVMExecutor None ''oxy''"

definition unstartedFour :: "(Message list) ABCIApp" where
  "unstartedFour = final_state (FinalizeBlock stdExt recGeth blockFour unstartedApp)"

text \<open>The application after \<open>InitChain\<close> with that genesis, and block 100, empty.\<close>

definition genesisStarted :: "(Message list) ABCIApp" where
  "genesisStarted = final_state (InitChain recGeth genesisUpdates 0 genesisApp)"

definition blockHundred :: FinalizeBlockRequest where
  "blockHundred = \<lparr>reqHeight = 100, reqTime = 0, reqTxs = []\<rparr>"

text \<open>The validator set that genesis leaves.\<close>

definition genesisSet :: ValidatorSet where
  "genesisSet =
     \<lparr>validators =
        [(''1'', newValidator ''1'' (keyOf 1) (5 * OXG) 0),
         (''2'', newValidator ''2'' (keyOf 2) (20 * OXG) 0),
         (''3'', newValidator ''3'' (keyOf 3) (20 * OXG) 0)],
      mutex = Unlocked, minStake = 10 * OXG, maxValidators = 100\<rparr>"

section \<open>Properties\<close>

subsection \<open>The validator set\<close>

lemma Int64_small: "- (2 ^ 63) \<le> x \<Longrightarrow> x < 2 ^ 63 \<Longrightarrow> Int64 x = x"
  unfolding Int64_def by (simp add: sint_sbintrunc' signed_take_bit_int_eq_self)

lemma calculatePower_clamp:
  assumes "0 \<le> stake"
  shows "calculatePower stake = clamp (stake div 10 ^ 18) 0 (2 ^ 30)"
proof -
  let ?p = "stake div 10 ^ 18"
  have p0: "0 \<le> ?p" using assms by (simp add: pos_imp_zdiv_nonneg_iff)
  show ?thesis
  proof (cases "?p > 2 ^ 30")
    case True
    then show ?thesis by (simp add: calculatePower_def clamp_def Let_def)
  next
    case False
    then have "Int64 ?p = ?p" using p0 by (intro Int64_small) auto
    then show ?thesis using False p0 by (simp add: calculatePower_def clamp_def Let_def)
  qed
qed

lemma set_update_subset: "set (AList.update k v al) \<subseteq> insert (k, v) (set al)"
  by (induction al) auto

lemma set_delete_subset: "set (AList.delete k al) \<subseteq> set al"
  by (auto simp: AList.delete_eq)

lemma list_all_update:
  "list_all P (map snd al) \<Longrightarrow> P v \<Longrightarrow> list_all P (map snd (AList.update k v al))"
  using set_update_subset [of k v al] by (fastforce simp: list_all_iff)

lemma list_all_delete:
  "list_all P (map snd al) \<Longrightarrow> list_all P (map snd (AList.delete k al))"
  using set_delete_subset [of k al] by (fastforce simp: list_all_iff)

lemma map_of_list_all:
  "list_all P (map snd al) \<Longrightarrow> map_of al k = Some v \<Longrightarrow> P v"
  by (force simp: list_all_iff dest: map_of_SomeD)

lemma foldl_load_ok:
  "list_all powerOK l \<Longrightarrow> list_all powerOK (map snd m) \<Longrightarrow>
   list_all powerOK (map snd (foldl (\<lambda>m v. AList.update (Address v) v m) m l))"
  by (induction l arbitrary: m) (auto intro: list_all_update)

lemma foldl_genesis_ok:
  "list_all powerOK (map snd m) \<Longrightarrow>
   list_all powerOK (map snd (foldl (\<lambda>m gv. AList.update (gvAddress gv)
      (newValidator (gvAddress gv) (gvPubKey gv) (gvStake gv) now) m) m gvs))"
proof (induction gvs arbitrary: m)
  case Nil
  then show ?case by simp
next
  case (Cons gv gvs)
  have "powerOK (newValidator (gvAddress gv) (gvPubKey gv) (gvStake gv) now)"
    by (simp add: powerOK_def newValidator_def)
  then have "list_all powerOK (map snd (AList.update (gvAddress gv)
      (newValidator (gvAddress gv) (gvPubKey gv) (gvStake gv) now) m))"
    using Cons.prems by (intro list_all_update)
  then show ?case using Cons.IH by simp
qed

lemma Lock_Some: "Lock vs = Some vs1 \<Longrightarrow> vs1 = vs\<lparr>mutex := WriteLocked\<rparr>"
  by (auto simp: Lock_def split: if_splits)

lemma RLock_Some: "RLock vs = Some vs1 \<Longrightarrow> validators vs1 = validators vs \<and> minStake vs1 = minStake vs \<and> maxValidators vs1 = maxValidators vs"
  by (auto simp: RLock_def split: RWMutex.splits)

lemma validators_RUnlock [simp]: "validators (RUnlock vs) = validators vs"
  by (auto simp: RUnlock_def split: RWMutex.splits nat.splits)

lemma validators_Unlock [simp]: "validators (Unlock vs) = validators vs"
  by (simp add: Unlock_def)

lemma powersOK_Save: "powersOK (vs, db) \<Longrightarrow> powersOK (final_state (SaveValidators vs db))"
  by (auto simp: SaveValidators_def powersOK_def split: option.splits dest!: RLock_Some)

lemma powersOK_saveThenReturn:
  "powersOK (vs, db) \<Longrightarrow> powersOK (final_state (saveThenReturn r vs db))"
  using powersOK_Save [of vs db]
  by (cases "SaveValidators vs db") (auto simp: saveThenReturn_def powersOK_def)

lemma powersOK_validators:
  "powersOK (vs, db) \<Longrightarrow> list_all powerOK (map snd m) \<Longrightarrow> powersOK (vs\<lparr>validators := m\<rparr>, db)"
  by (simp add: powersOK_def)

lemma powersOK_mutex [simp]: "powersOK (vs\<lparr>mutex := m\<rparr>, db) = powersOK (vs, db)"
  by (simp add: powersOK_def)

lemma powersOK_Unlock [simp]: "powersOK (Unlock vs, db) = powersOK (vs, db)"
  by (simp add: powersOK_def)

lemma powersOK_D: "powersOK (vs, db) \<Longrightarrow> list_all powerOK (map snd (validators vs))"
  by (simp add: powersOK_def)

lemma powersOK_save_upd:
  assumes "powersOK (vs1, db)" and "powerOK w"
  shows "powersOK (final_state (saveThenReturn r
           (vs1\<lparr>validators := AList.update a w (validators vs1)\<rparr>) db))"
proof -
  have L: "list_all powerOK (map snd (validators vs1))" using assms(1) by (rule powersOK_D)
  have "powersOK (vs1\<lparr>validators := AList.update a w (validators vs1)\<rparr>, db)"
    by (intro powersOK_validators assms(1) list_all_update L assms(2))
  then show ?thesis by (rule powersOK_saveThenReturn)
qed

lemma powersOK_save_upd_del:
  assumes "powersOK (vs1, db)" and "powerOK w"
  shows "powersOK (final_state (saveThenReturn r
           (vs1\<lparr>validators := AList.delete d (AList.update a w (validators vs1))\<rparr>) db))"
proof -
  have L: "list_all powerOK (map snd (validators vs1))" using assms(1) by (rule powersOK_D)
  have "powersOK (vs1\<lparr>validators := AList.delete d (AList.update a w (validators vs1))\<rparr>, db)"
    by (intro powersOK_validators assms(1) list_all_delete list_all_update L assms(2))
  then show ?thesis by (rule powersOK_saveThenReturn)
qed

lemma powersOK_save_del_upd:
  assumes "powersOK (vs1, db)" and "powerOK w"
  shows "powersOK (final_state (saveThenReturn r
           (vs1\<lparr>validators := AList.update a w (AList.delete d (validators vs1))\<rparr>) db))"
proof -
  have L: "list_all powerOK (map snd (validators vs1))" using assms(1) by (rule powersOK_D)
  have "powersOK (vs1\<lparr>validators := AList.update a w (AList.delete d (validators vs1))\<rparr>, db)"
    by (intro powersOK_validators assms(1) list_all_delete list_all_update L assms(2))
  then show ?thesis by (rule powersOK_saveThenReturn)
qed

lemma powersOK_Lock: "powersOK (vs, db) \<Longrightarrow> Lock vs = Some vs1 \<Longrightarrow> powersOK (vs1, db)"
  by (auto dest!: Lock_Some)

lemma powersOK_lookup:
  "powersOK (vs, db) \<Longrightarrow> map_of (validators vs) a = Some w \<Longrightarrow> powerOK w"
  by (rule map_of_list_all [OF powersOK_D])

lemma powersOK_Register:
  assumes "powersOK (vs, db)"
  shows "powersOK (final_state (RegisterValidator a k s now vs db))"
proof (cases "Lock vs")
  case None
  then show ?thesis using assms by (simp add: RegisterValidator_def)
next
  case (Some vs1)
  have ok1: "powersOK (vs1, db)" using assms Some by (rule powersOK_Lock)
  have nv: "powerOK (newValidator a k s now)" by (simp add: powerOK_def newValidator_def)
  show ?thesis
    using Some ok1
    by (auto simp: RegisterValidator_def Let_def split: option.splits
          intro!: powersOK_save_upd [OF ok1 nv] powersOK_save_del_upd [OF ok1 nv])
qed

lemma powersOK_Stake:
  assumes "powersOK (vs, db)"
  shows "powersOK (final_state (StakeOp a n now vs db))"
proof (cases "Lock vs")
  case None
  then show ?thesis using assms by (simp add: StakeOp_def)
next
  case (Some vs1)
  have ok1: "powersOK (vs1, db)" using assms Some by (rule powersOK_Lock)
  show ?thesis
    using Some ok1
    by (auto simp: StakeOp_def Let_def split: option.splits
          intro!: powersOK_save_upd [OF ok1] simp: powerOK_def)
qed

lemma powersOK_Unstake:
  assumes "powersOK (vs, db)"
  shows "powersOK (final_state (Unstake a n now vs db))"
proof (cases "Lock vs")
  case None
  then show ?thesis using assms by (simp add: Unstake_def)
next
  case (Some vs1)
  have ok1: "powersOK (vs1, db)" using assms Some by (rule powersOK_Lock)
  show ?thesis
    using Some ok1
    by (auto simp: Unstake_def Let_def split: option.splits
          intro!: powersOK_save_upd [OF ok1] powersOK_save_upd_del [OF ok1] simp: powerOK_def)
qed

lemma powersOK_Slash:
  assumes "powersOK (vs, db)"
  shows "powersOK (final_state (Slash a p d now vs db))"
proof (cases "Lock vs")
  case None
  then show ?thesis using assms by (simp add: Slash_def)
next
  case (Some vs1)
  have ok1: "powersOK (vs1, db)" using assms Some by (rule powersOK_Lock)
  show ?thesis
    using Some ok1
    by (auto simp: Slash_def Let_def split: option.splits
          intro!: powersOK_save_upd [OF ok1] powersOK_save_upd_del [OF ok1] simp: powerOK_def)
qed

lemma powersOK_Unjail:
  assumes "powersOK (vs, db)"
  shows "powersOK (final_state (Unjail a now vs db))"
proof (cases "Lock vs")
  case None
  then show ?thesis using assms by (simp add: Unjail_def)
next
  case (Some vs1)
  have ok1: "powersOK (vs1, db)" using assms Some by (rule powersOK_Lock)
  have B: "Power w = calculatePower (Stake w)" if "map_of (validators vs1) a = Some w" for w
    using powersOK_lookup [OF ok1 that] by (simp add: powerOK_def)
  show ?thesis
    using Some ok1
    by (auto simp: Unjail_def Let_def split: option.splits
          intro!: powersOK_save_upd [OF ok1] simp: powerOK_def B)
qed

lemma powersOK_Activity:
  assumes "powersOK (vs, db)"
  shows "powersOK (final_state (UpdateValidatorActivity a m now vs), db)"
proof (cases "Lock vs")
  case None
  then show ?thesis using assms by (simp add: UpdateValidatorActivity_def)
next
  case (Some vs1)
  then have vs1: "vs1 = vs\<lparr>mutex := WriteLocked\<rparr>" by (rule Lock_Some)
  have ok1: "powersOK (vs1, db)" using assms vs1 by simp
  have L: "list_all powerOK (map snd (validators vs1))" using ok1 by (rule powersOK_D)
  have B: "Power w = calculatePower (Stake w)" if "map_of (validators vs1) a = Some w" for w
    using powersOK_lookup [OF ok1 that] by (simp add: powerOK_def)
  show ?thesis
    using Some ok1
    by (auto simp: UpdateValidatorActivity_def Let_def split: option.splits
          intro!: powersOK_validators list_all_update L simp: powerOK_def B)
qed

lemma powersOK_Rotate:
  assumes "powersOK (vs, db)"
  shows "powersOK (final_state (RotateValidators vs), db)"
proof (cases "Lock vs")
  case None
  then show ?thesis using assms by (simp add: RotateValidators_def)
next
  case (Some vs1)
  then have vs1: "vs1 = vs\<lparr>mutex := WriteLocked\<rparr>" by (rule Lock_Some)
  have ok1: "powersOK (vs1, db)" using assms vs1 by simp
  have R: "list_all powerOK (map snd (map (\<lambda>(k, v). (k, v\<lparr>Power := calculatePower (Stake v)\<rparr>)) m))" for m
    by (induction m) (auto simp: powerOK_def)
  have "powersOK (vs1\<lparr>validators := map (\<lambda>(k, v). (k, v\<lparr>Power := calculatePower (Stake v)\<rparr>)) (validators vs1)\<rparr>, db)"
    by (intro powersOK_validators ok1 R)
  then show ?thesis
    using Some by (simp add: RotateValidators_def Let_def)
qed

lemma powersOK_Genesis:
  assumes "powersOK (vs, db)"
  shows "powersOK (final_state (InitializeGenesisValidators gvs now vs db))"
proof (cases "Lock vs")
  case None
  then show ?thesis using assms by (simp add: InitializeGenesisValidators_def)
next
  case (Some vs1)
  then have vs1: "vs1 = vs\<lparr>mutex := WriteLocked\<rparr>" by (rule Lock_Some)
  have ok1: "powersOK (vs1, db)" using assms vs1 by simp
  show ?thesis
    using Some
    by (simp add: InitializeGenesisValidators_def Let_def)
       (intro powersOK_Save powersOK_Unlock [THEN iffD2] powersOK_validators ok1 foldl_genesis_ok
          powersOK_D [OF ok1])
qed

lemma powersOK_Load:
  assumes "powersOK (vs, db)"
  shows "powersOK (final_state (LoadValidators vs db), db)"
proof (cases "Lock vs")
  case None
  then show ?thesis using assms by (simp add: LoadValidators_def)
next
  case (Some vs1)
  then have vs1: "vs1 = vs\<lparr>mutex := WriteLocked\<rparr>" by (rule Lock_Some)
  have ok1: "powersOK (vs1, db)" using assms vs1 by simp
  show ?thesis
  proof (cases "dbValidatorsSet db")
    case None
    then show ?thesis using Some ok1 by (simp add: LoadValidators_def)
  next
    case (Some l)
    then have "list_all powerOK l" using assms by (simp add: powersOK_def)
    then have "list_all powerOK (map snd (foldl (\<lambda>m v. AList.update (Address v) v m) [] l))"
      by (intro foldl_load_ok) simp_all
    then show ?thesis
      using Some \<open>Lock vs = Some vs1\<close> ok1
      by (simp add: LoadValidators_def powersOK_validators)
  qed
qed

lemma powersOK_readers:
  assumes "powersOK (vs, db)"
  shows "powersOK (final_state (GetActiveValidators vs), db)"
    and "powersOK (final_state (GetValidators vs), db)"
    and "powersOK (final_state (ToCometBFTValidators vs), db)"
  using assms
  by (auto simp: GetActiveValidators_def GetValidators_def ToCometBFTValidators_def powersOK_def
        split: option.splits dest!: RLock_Some)

lemma powersOK_after: "powersOK s \<Longrightarrow> powersOK (after op s)"
  by (cases s; cases op)
     (simp_all add: powersOK_Load powersOK_Save powersOK_Register powersOK_Stake powersOK_Unstake
        powersOK_Slash powersOK_Unjail powersOK_Activity powersOK_Rotate powersOK_Genesis
        powersOK_readers)

lemma reachable_powersOK: "reachable s \<Longrightarrow> powersOK s"
proof (induction rule: reachable.induct)
  case (fresh db ms mv)
  then show ?case by (simp add: powersOK_def NewValidatorSet_def)
next
  case (restart vs db ms mv)
  then show ?case by (simp add: powersOK_def NewValidatorSet_def)
next
  case (other_write vs db db')
  then show ?case by (simp add: powersOK_def)
next
  case (call s op)
  then show ?case by (simp add: powersOK_after)
qed

lemma GetActiveValidators_snapshot:
  assumes "GetActiveValidators vs = Done xs vs'"
  shows "xs = activeValidators vs" and "validators vs' = validators vs"
proof -
  from assms obtain vs1 where l: "RLock vs = Some vs1"
    and r: "xs = activeValidators vs1" "vs' = RUnlock vs1"
    by (auto simp: GetActiveValidators_def split: option.splits)
  from l have "validators vs1 = validators vs" "minStake vs1 = minStake vs"
    by (auto dest: RLock_Some)
  then show "xs = activeValidators vs" and "validators vs' = validators vs"
    using r by (simp_all add: activeValidators_def)
qed

lemma set_activeValidators:
  "set (activeValidators vs) = {v \<in> snd ` set (validators vs). isActive (minStake vs) v}"
  by (auto simp: activeValidators_def sortByStakeDesc_def)

text \<open>
  Claim C8. In every reachable state of the validator set, a state loaded from the store by
  \<open>LoadValidators\<close> included, every validator of the active snapshot has
  \<open>power = clamp (stake div 10^18) 0 (2^30)\<close>, is not jailed and has a stake of at least
  \<open>minStake\<close>. The minimum stake is not negative (the spec types it \<open>u256\<close>). The snapshot
  is the list \<open>GetActiveValidators\<close> computes under its read lock.
\<close>

theorem active_snapshot_invariant:
  assumes "reachable (vs, db)" and "0 \<le> minStake vs" and "v \<in> set (activeValidators vs)"
  shows "Power v = clamp (Stake v div 10 ^ 18) 0 (2 ^ 30) \<and> \<not> Jailed v \<and> minStake vs \<le> Stake v"
proof -
  from assms(3) have mem: "v \<in> snd ` set (validators vs)" and act: "isActive (minStake vs) v"
    by (simp_all add: set_activeValidators)
  from act have nj: "\<not> Jailed v" and st: "minStake vs \<le> Stake v"
    by (simp_all add: isActive_def stakeValid_def)
  have "powersOK (vs, db)" using assms(1) by (rule reachable_powersOK)
  then have "powerOK v" using mem by (auto simp: powersOK_def list_all_iff)
  moreover have "0 \<le> Stake v" using st assms(2) by simp
  ultimately show ?thesis using nj st by (simp add: powerOK_def calculatePower_clamp)
qed

lemma genesis_two:
  "InitializeGenesisValidators [gv_a, gv_b] 0 (NewValidatorSet (10 * OXG) maxV) emptyDB
     = Done None (vs_two maxV, emptyDB\<lparr>dbValidatorsSet := Some [val_a, val_b]\<rparr>)"
  by (simp add: InitializeGenesisValidators_def NewValidatorSet_def Lock_def Unlock_def
      SaveValidators_def RLock_def RUnlock_def gv_a_def gv_b_def vs_two_def val_a_def val_b_def Let_def)

lemma active_two: "activeValidators (vs_two maxV) = [val_b, val_a]"
  by (simp add: activeValidators_def vs_two_def isActive_def stakeValid_def sortByStakeDesc_def
      val_a_def val_b_def newValidator_def OXG_def)

text \<open>
  Claim C7, as stated, fails: \<open>GetActiveValidators\<close> does not cut its result to
  \<open>maxValidators\<close>. A set built with \<open>maxValidators = 1\<close> and initialised from a genesis
  of two validators returns both.
\<close>

theorem snapshot_not_truncated:
  "final_state (InitializeGenesisValidators [gv_a, gv_b] 0 (NewValidatorSet (10 * OXG) 1) emptyDB)
     = (vs_two 1, emptyDB\<lparr>dbValidatorsSet := Some [val_a, val_b]\<rparr>)
   \<and> GetActiveValidators (vs_two 1) = Done [val_b, val_a] (vs_two 1)
   \<and> maxValidators (vs_two 1) = 1
   \<and> \<not> int (length [val_b, val_a]) \<le> maxValidators (vs_two 1)"
proof -
  have "GetActiveValidators (vs_two 1) = Done (activeValidators (vs_two 1)) (vs_two 1)"
    by (simp add: GetActiveValidators_def RLock_def RUnlock_def vs_two_def activeValidators_def)
  then show ?thesis
    by (simp add: genesis_two active_two) (simp add: vs_two_def)
qed

lemma sorted_sortByStakeDesc: "sorted_wrt (\<lambda>a b. Stake a \<ge> Stake b) (sortByStakeDesc xs)"
proof -
  have "sorted (map (\<lambda>v. - Stake v) (sort_key (\<lambda>v. - Stake v) xs))" by (rule sorted_sort_key)
  then show ?thesis by (simp add: sortByStakeDesc_def sorted_map)
qed

lemma mset_sortByStakeDesc: "mset (sortByStakeDesc xs) = mset xs"
  by (simp add: sortByStakeDesc_def)

text \<open>
  Claim C7, amended. In every state whose mutex no writer holds, \<open>GetActiveValidators\<close>
  returns, leaves the validators as they are, and returns exactly the validators that are
  not jailed and have a stake of at least \<open>minStake\<close>, each as often as the set holds it,
  sorted by stake descending, and all of them: the result is not truncated.
\<close>

theorem GetActiveValidators_exact:
  assumes "mutex vs \<noteq> WriteLocked"
  shows "\<exists>xs vs'. GetActiveValidators vs = Done xs vs'
           \<and> validators vs' = validators vs
           \<and> mset xs = mset (filter (\<lambda>v. \<not> Jailed v \<and> Stake v \<ge> minStake vs)
                              (map snd (validators vs)))
           \<and> sorted_wrt (\<lambda>a b. Stake a \<ge> Stake b) xs
           \<and> length xs = length (filter (\<lambda>v. \<not> Jailed v \<and> Stake v \<ge> minStake vs)
                              (map snd (validators vs)))"
proof -
  obtain vs1 where L: "RLock vs = Some vs1"
    using assms by (cases "mutex vs") (auto simp: RLock_def)
  then have same: "validators vs1 = validators vs" "minStake vs1 = minStake vs"
    by (auto dest: RLock_Some)
  have A: "activeValidators vs1 = sortByStakeDesc (filter (\<lambda>v. \<not> Jailed v \<and> Stake v \<ge> minStake vs)
                              (map snd (validators vs)))"
    by (simp add: activeValidators_def same isActive_def stakeValid_def fun_eq_iff cong: filter_cong)
  have "GetActiveValidators vs = Done (activeValidators vs1) (RUnlock vs1)"
    using L by (simp add: GetActiveValidators_def)
  moreover have "length (activeValidators vs1) = length (filter (\<lambda>v. \<not> Jailed v \<and> Stake v \<ge> minStake vs)
                              (map snd (validators vs)))"
    unfolding A by (simp add: sortByStakeDesc_def)
  ultimately show ?thesis
    using same by (simp add: A mset_sortByStakeDesc sorted_sortByStakeDesc)
qed

text \<open>The amended claim C7 at the set of two validators.\<close>

theorem GetActiveValidators_exact_witness:
  "mutex (vs_two 1) \<noteq> WriteLocked \<and>
   (\<exists>xs vs'. GetActiveValidators (vs_two 1) = Done xs vs'
           \<and> validators vs' = validators (vs_two 1)
           \<and> mset xs = mset (filter (\<lambda>v. \<not> Jailed v \<and> Stake v \<ge> minStake (vs_two 1))
                              (map snd (validators (vs_two 1))))
           \<and> sorted_wrt (\<lambda>a b. Stake a \<ge> Stake b) xs
           \<and> length xs = length (filter (\<lambda>v. \<not> Jailed v \<and> Stake v \<ge> minStake (vs_two 1))
                              (map snd (validators (vs_two 1)))))"
proof -
  have h: "mutex (vs_two 1) \<noteq> WriteLocked" by (simp add: vs_two_def)
  show ?thesis using h GetActiveValidators_exact [OF h] by simp
qed

text \<open>
  Claim C8 at the set a genesis of two validators produces: validator \<open>0xA\<close>, of stake
  20 OXG, has power 20.
\<close>

theorem active_snapshot_invariant_witness:
  "reachable (vs_two 100, emptyDB\<lparr>dbValidatorsSet := Some [val_a, val_b]\<rparr>)
   \<and> 0 \<le> minStake (vs_two 100) \<and> val_a \<in> set (activeValidators (vs_two 100))
   \<and> Power val_a = clamp (Stake val_a div 10 ^ 18) 0 (2 ^ 30) \<and> \<not> Jailed val_a
   \<and> minStake (vs_two 100) \<le> Stake val_a \<and> Power val_a = 20"
proof -
  have "reachable (NewValidatorSet (10 * OXG) 100, emptyDB)"
    by (rule reachable.fresh) (simp add: emptyDB_def)
  then have "reachable (after (OpGenesis [gv_a, gv_b] 0) (NewValidatorSet (10 * OXG) 100, emptyDB))"
    by (rule reachable.call)
  then have r: "reachable (vs_two 100, emptyDB\<lparr>dbValidatorsSet := Some [val_a, val_b]\<rparr>)"
    by (simp add: genesis_two)
  have m: "0 \<le> minStake (vs_two 100)" by (simp add: vs_two_def OXG_def)
  have a: "val_a \<in> set (activeValidators (vs_two 100))" by (simp add: active_two)
  have p: "Power val_a = 20"
    by (simp add: val_a_def newValidator_def calculatePower_def Int64_def OXG_def)
  show ?thesis using r m a p active_snapshot_invariant [OF r m a] by simp
qed

text \<open>
  Claim C9. \<open>RegisterValidator\<close> on a fresh set, with a stake above the minimum, does not
  return: it calls \<open>SaveValidators\<close> while its deferred \<open>Unlock\<close> is still pending, and
  \<open>SaveValidators\<close> waits for the read lock of the mutex the caller holds for writing.
  The validator is in the map, the store is unchanged, the mutex stays write-locked.
\<close>

theorem RegisterValidator_blocks:
  "RegisterValidator ''0xA'' key_a (20 * OXG) 0 (NewValidatorSet (10 * OXG) 100) emptyDB
     = Blocked (\<lparr>validators = [(''0xA'', val_a)], mutex = WriteLocked,
                 minStake = 10 * OXG, maxValidators = 100\<rparr>, emptyDB)"
  by (simp add: RegisterValidator_def NewValidatorSet_def Lock_def saveThenReturn_def
      SaveValidators_def RLock_def val_a_def Let_def OXG_def)

text \<open>
  The same holds for every successful path of \<open>RegisterValidator\<close>, \<open>Stake\<close>,
  \<open>Unstake\<close>, \<open>Slash\<close> and \<open>Unjail\<close>: none of them ever returns success.
  \<open>InitializeGenesisValidators\<close> releases the lock first and does return.
\<close>

lemma saveThenReturn_WriteLocked:
  "mutex vs = WriteLocked \<Longrightarrow> saveThenReturn r vs db = Blocked (vs, db)"
  by (simp add: saveThenReturn_def SaveValidators_def RLock_def)

lemma RegisterValidator_never_succeeds:
  "RegisterValidator a k s now vs db \<noteq> Done (Inr v) st"
  by (auto simp: RegisterValidator_def Lock_def Let_def saveThenReturn_WriteLocked
      split: option.splits if_splits)

lemma StakeOp_never_succeeds: "StakeOp a n now vs db \<noteq> Done None st"
  by (auto simp: StakeOp_def Lock_def Let_def saveThenReturn_WriteLocked
      split: option.splits if_splits)

lemma Unstake_never_succeeds: "Unstake a n now vs db \<noteq> Done None st"
  by (auto simp: Unstake_def Lock_def Let_def saveThenReturn_WriteLocked
      split: option.splits if_splits)

lemma Slash_never_succeeds: "Slash a p d now vs db \<noteq> Done None st"
  by (auto simp: Slash_def Lock_def Let_def saveThenReturn_WriteLocked
      split: option.splits if_splits)

lemma Unjail_never_succeeds: "Unjail a now vs db \<noteq> Done None st"
  by (auto simp: Unjail_def Lock_def Let_def saveThenReturn_WriteLocked
      split: option.splits if_splits)

lemma InitializeGenesisValidators_returns:
  "mutex vs = Unlocked \<Longrightarrow>
   \<exists>vs' db'. InitializeGenesisValidators gvs now vs db = Done None (vs', db') \<and> mutex vs' = Unlocked"
  by (simp add: InitializeGenesisValidators_def Lock_def Unlock_def SaveValidators_def RLock_def
      RUnlock_def Let_def)

subsection \<open>The application and the executor\<close>

subsubsection \<open>Query\<close>

lemma Query_account_prefix:
  "take 8 path = ''account/'' \<Longrightarrow>
   Query X G path app = Done \<lparr>qCode = 1, qValue = NoValue, qLog = UnknownPath path\<rparr> app"
proof -
  assume p: "take 8 path = ''account/''"
  then have l: "length path \<ge> 8" by (cases "length path \<ge> 8") auto
  have t7: "take 7 path = ''account''"
  proof -
    have "take 7 path = take 7 (take 8 path)" by simp
    then show ?thesis by (simp add: p)
  qed
  have t3: "take 3 path = ''acc''"
  proof -
    have "take 3 path = take 3 (take 8 path)" by simp
    then show ?thesis by (simp add: p)
  qed
  have t6: "take 6 path = ''accoun''"
  proof -
    have "take 6 path = take 6 (take 8 path)" by simp
    then show ?thesis by (simp add: p)
  qed
  have nh: "path \<noteq> ''height''" using p by auto
  show ?thesis by (simp add: Query_def p t7 t3 t6 nh)
qed

text \<open>
  Claim C5. \<open>Query\<close> with the path \<open>account/<addr>\<close> answers with code 1 and the
  unknown-path log, whatever the state holds: the case compares the first 7 characters of
  the path with the 8 characters of \<open>account/\<close>, which never match, and no later case
  takes the path.
\<close>

theorem Query_account_unknown:
  "Query X G ''account/0x0000000000000000000000000000000000000001'' app =
     Done \<lparr>qCode = 1, qValue = NoValue,
           qLog = UnknownPath ''account/0x0000000000000000000000000000000000000001''\<rparr> app"
  by (rule Query_account_prefix) simp

text \<open>The sibling case \<open>balance/<addr>\<close> compares 8 characters and does answer.\<close>

lemma decimal_0: "decimal 0 = ''0''"
  by (simp add: decimal.simps char_of_eq_iff)

lemma Query_balance_started:
  "Query X recGeth (''balance/'' @ sender) startedApp =
     Done \<lparr>qCode = 0, qValue = BalanceValue sender ''0'', qLog = NoLog\<rparr> startedApp"
  by (simp add: Query_def sender_def startedApp_def NewABCIApp_def startedExecutor_def
      GetState_def getStateDB_def recGeth_def decimal_0)

subsubsection \<open>Commit\<close>

lemma GetRootHash_nil: "smStateDB e = None \<Longrightarrow> GetRootHash G e = (0, e)"
  by (simp add: GetRootHash_def)

lemma smSaveState_nil:
  "smStateDB e = None \<Longrightarrow> smSaveState G db e = (Some StateDBNotInitialised, e, db)"
  by (simp add: smSaveState_def)

lemma smSaveState_reopened:
  assumes "smStateDB e = Some s" and "IntermediateRoot G s = (root, s1)"
    and "StateCommit G s1 = (True, s2)" and "StateNew G root = Some s3"
  shows "smStateDB (fst (snd (smSaveState G db e))) = Some s3"
    and "smStateRoot (fst (snd (smSaveState G db e))) = root"
    and "shared (fst (snd (smSaveState G db e))) = False"
  using assms by (simp_all add: smSaveState_def writeSm_def Let_def)

text \<open>
  Claim C10. The app hash \<open>Commit\<close> publishes, in the application state and in the stored
  metadata. When the state manager holds no state object, nothing is committed, the root
  recorded is the zero hash and the app hash is the Keccak-256 of the JSON encoding of the
  application state. When it holds one, that object is committed at its root, the manager
  reopens the state at that root, and the app hash is the root the reopened state reports
  (in the library, the root it was opened at), unless that is the zero hash: then it is
  the Keccak-256 again.
\<close>

theorem Commit_app_hash:
  "(smStateDB (executor app) = None \<longrightarrow>
      AppHash (state (Commit X G app)) = Keccak256 G (MarshalAppState X (state app))
      \<and> dbState (storage (Commit X G app)) =
          Some \<lparr>metaRoot = 0, metaHeight = Height (state app),
                metaAppHash = Some (Keccak256 G (MarshalAppState X (state app))),
                metaTimestamp = None\<rparr>)
   \<and> (smStateDB (executor app) = Some s \<and> IntermediateRoot G s = (root, s1)
      \<and> StateCommit G s1 = (True, s2) \<and> StateNew G root = Some s3
      \<and> IntermediateRoot G s3 = (root', s4) \<longrightarrow>
      AppHash (state (Commit X G app))
        = (if root' = 0 then Keccak256 G (MarshalAppState X (state app)) else root')
      \<and> dbState (storage (Commit X G app)) =
          Some \<lparr>metaRoot = root', metaHeight = Height (state app),
                metaAppHash = Some (AppHash (state (Commit X G app))),
                metaTimestamp = None\<rparr>
      \<and> smStateRoot (executor (Commit X G app)) = root)"
proof (intro conjI impI)
  assume n: "smStateDB (executor app) = None"
  show "AppHash (state (Commit X G app)) = Keccak256 G (MarshalAppState X (state app))"
    using n by (simp add: Commit_def commitAppHash_def saveBlock_def Let_def smSaveState_nil
        GetRootHash_nil)
  show "dbState (storage (Commit X G app)) =
          Some \<lparr>metaRoot = 0, metaHeight = Height (state app),
                metaAppHash = Some (Keccak256 G (MarshalAppState X (state app))),
                metaTimestamp = None\<rparr>"
    using n by (simp add: Commit_def commitAppHash_def saveBlock_def Let_def smSaveState_nil
        GetRootHash_nil)
next
  assume a: "smStateDB (executor app) = Some s \<and> IntermediateRoot G s = (root, s1)
      \<and> StateCommit G s1 = (True, s2) \<and> StateNew G root = Some s3
      \<and> IntermediateRoot G s3 = (root', s4)"
  obtain err e1 db1 where sv: "smSaveState G (storage app) (executor app) = (err, e1, db1)"
    by (cases "smSaveState G (storage app) (executor app)") auto
  have e1: "smStateDB e1 = Some s3" "smStateRoot e1 = root"
    using a smSaveState_reopened [of "executor app" s G root s1 s2 s3 "storage app"] sv by simp_all
  have g: "GetRootHash G e1 = (root', writeSm e1 s4)"
    using a e1 by (simp add: GetRootHash_def)
  show "AppHash (state (Commit X G app))
        = (if root' = 0 then Keccak256 G (MarshalAppState X (state app)) else root')"
    by (simp add: Commit_def commitAppHash_def saveBlock_def Let_def sv g)
  show "dbState (storage (Commit X G app)) =
          Some \<lparr>metaRoot = root', metaHeight = Height (state app),
                metaAppHash = Some (AppHash (state (Commit X G app))),
                metaTimestamp = None\<rparr>"
    by (simp add: Commit_def commitAppHash_def saveBlock_def Let_def sv g)
  show "smStateRoot (executor (Commit X G app)) = root"
    using e1 by (simp add: Commit_def commitAppHash_def saveBlock_def Let_def sv g writeSm_def)
qed

lemma unstartedFour_eq:
  "unstartedFour = unstartedApp\<lparr>state := \<lparr>Height = 4, AppHash = 0, Validators = []\<rparr>,
      currentBlockHeight := 4, currentBlockTime := 0, currentBlockTxs := [],
      currentBlockReceipts := [],
      executor := SetCurrentBlockInfo 4 0 NewEVMExecutor\<rparr>"
  by (simp add: unstartedFour_def FinalizeBlock_def blockFour_def unstartedApp_def NewABCIApp_def
      rotateIfDue_def Let_def)

lemma finalizedFour_state:
  "smStateDB (executor finalizedFour) = Some []"
  by (simp add: finalizedFour_def FinalizeBlock_def blockFour_def startedApp_def NewABCIApp_def
      rotateIfDue_def Let_def SetCurrentBlockInfo_def startedExecutor_def)

text \<open>
  Claim C10 at block 4, both cases. Over an executor that was never started the app hash
  recorded for the block is the Keccak-256 of the encoded application state, and differs
  from the root recorded beside it, the zero hash: it is no state root. Over a started
  executor it is the root of the state reopened after the commit.
\<close>

theorem Commit_app_hash_witness:
  "smStateDB (executor unstartedFour) = None
   \<and> AppHash (state (Commit stdExt recGeth unstartedFour))
       = Keccak256 recGeth (MarshalAppState stdExt \<lparr>Height = 4, AppHash = 0, Validators = []\<rparr>)
   \<and> map_option metaRoot (dbState (storage (Commit stdExt recGeth unstartedFour))) = Some 0
   \<and> map_option metaAppHash (dbState (storage (Commit stdExt recGeth unstartedFour)))
       \<noteq> map_option (\<lambda>m. Some (metaRoot m)) (dbState (storage (Commit stdExt recGeth unstartedFour)))
   \<and> smStateDB (executor finalizedFour) = Some []
   \<and> AppHash (state (Commit stdExt recGeth finalizedFour))
       = fst (IntermediateRoot recGeth [])
   \<and> map_option metaRoot (dbState (storage (Commit stdExt recGeth finalizedFour)))
       = Some (fst (IntermediateRoot recGeth []))"
proof -
  have n: "smStateDB (executor unstartedFour) = None"
    by (simp add: unstartedFour_eq SetCurrentBlockInfo_def NewEVMExecutor_def)
  have st: "state unstartedFour = \<lparr>Height = 4, AppHash = 0, Validators = []\<rparr>"
    by (simp add: unstartedFour_eq)
  have k: "Keccak256 recGeth (MarshalAppState stdExt \<lparr>Height = 4, AppHash = 0, Validators = []\<rparr>) \<noteq> 0"
    by (simp add: recGeth_def stdExt_def)
  have r: "IntermediateRoot recGeth [] = (1, [])" "StateCommit recGeth [] = (True, [])"
    "StateNew recGeth 1 = Some []"
    by (simp_all add: recGeth_def)
  show ?thesis
    using Commit_app_hash [where app = unstartedFour and X = stdExt and G = recGeth]
      Commit_app_hash [where app = finalizedFour and X = stdExt and G = recGeth and s = "[]"
        and root = 1 and ?s1.0 = "[]" and ?s2.0 = "[]" and ?s3.0 = "[]" and root' = 1
        and ?s4.0 = "[]"]
      n st k r finalizedFour_state
    by simp
qed

text \<open>
  The other ways through the save: a commit that fails leaves the manager its object, whose
  root is published; a state that can be reopened neither at the new root nor from the
  stored metadata leaves the manager without an object, and the Keccak-256 is published.
\<close>

lemma Commit_app_hash_commit_failed:
  assumes "smStateDB (executor app) = Some s" and "IntermediateRoot G s = (root, s1)"
    and "StateCommit G s1 = (False, s2)" and "IntermediateRoot G s2 = (root', s3)"
  shows "AppHash (state (Commit X G app))
        = (if root' = 0 then Keccak256 G (MarshalAppState X (state app)) else root')"
proof -
  have sv: "smSaveState G (storage app) (executor app)
      = (Some CommitFailed, writeSm (executor app) s2, storage app)"
    using assms by (simp add: smSaveState_def Let_def)
  have g: "GetRootHash G (writeSm (executor app) s2)
      = (root', writeSm (writeSm (executor app) s2) s3)"
    using assms by (simp add: GetRootHash_def writeSm_def)
  show ?thesis
    by (simp add: Commit_def commitAppHash_def saveBlock_def Let_def sv g)
qed

lemma Commit_app_hash_state_lost:
  assumes "smStateDB (executor app) = Some s" and "IntermediateRoot G s = (root, s1)"
    and "StateCommit G s1 = (True, s2)" and "StateNew G root = None"
    and "OpenState G (case dbState (storage app) of None \<Rightarrow> 0 | Some m \<Rightarrow> metaRoot m) = None"
  shows "AppHash (state (Commit X G app)) = Keccak256 G (MarshalAppState X (state app))"
proof -
  obtain err e1 db1 where sv: "smSaveState G (storage app) (executor app) = (err, e1, db1)"
    by (cases "smSaveState G (storage app) (executor app)") auto
  have "smStateDB (fst (snd (smSaveState G (storage app) (executor app)))) = None"
    using assms by (simp add: smSaveState_def LoadState_def writeSm_def Let_def)
  then have "smStateDB e1 = None" using sv by simp
  then have g: "GetRootHash G e1 = (0, e1)" by (rule GetRootHash_nil)
  show ?thesis
    by (simp add: Commit_def commitAppHash_def saveBlock_def Let_def sv g)
qed

subsubsection \<open>Contract creation\<close>

lemma toMessage_never_creates: "msgTo (toMessage G tx value gasPrice) \<noteq> None"
  by (simp add: toMessage_def)

lemma SetString10_0: "SetString10 ''0'' = Some 0"
  by (simp add: SetString10_def scanDigits_def is_digit_def digit_val_def)

text \<open>
  Claim C3. With the recording library, \<open>DeployContract\<close> of the one-byte code \<open>00\<close>
  succeeds and returns the address derived from sender and nonce, but the one message the
  EVM was given is a call to the zero address (\<open>msgTo = Some 0\<close>) carrying the code as
  call data: no creation message (\<open>msgTo = None\<close>) is ever built, so no contract exists at
  the returned address.
\<close>

theorem DeployContract_calls_zero_address:
  "DeployContract recGeth emptyDB sender [0] [] 1000000 ''0'' startedExecutor =
     Done (Inr (AddressHex recGeth (CreateAddress recGeth (HexToAddress recGeth sender) 0),
                \<lparr>Success = True, GasUsed = 21000, ReturnData = [], Logs = [], Error = []\<rparr>))
       (startedExecutor\<lparr>smStateDB := Some
            [\<lparr>msgFrom = HexToAddress recGeth sender, msgTo = Some 0, msgNonce = 0, msgValue = 0,
              msgGasLimit = 1000000, msgGasPrice = 0, msgGasFeeCap = 0, msgGasTipCap = 0,
              msgData = [0]\<rparr>],
          stateDB := Some
            [\<lparr>msgFrom = HexToAddress recGeth sender, msgTo = Some 0, msgNonce = 0, msgValue = 0,
              msgGasLimit = 1000000, msgGasPrice = 0, msgGasFeeCap = 0, msgGasTipCap = 0,
              msgData = [0]\<rparr>]\<rparr>)"
  by (simp add: DeployContract_def ExecuteTransaction_def deployTx_def getStateDB_def
      startedExecutor_def writeExec_def toMessage_def SetString10_0 Let_def recGeth_def
      hexNumber_def has0xPrefix_def)

subsubsection \<open>FinalizeBlock and the store\<close>

lemma onlyTransactionsWritten_refl: "onlyTransactionsWritten X raws db db"
  by (simp add: onlyTransactionsWritten_def)

lemma onlyTransactionsWritten_skip:
  "onlyTransactionsWritten X raws db db' \<Longrightarrow> onlyTransactionsWritten X (raw # raws) db db'"
  by (auto simp: onlyTransactionsWritten_def)

lemma onlyTransactionsWritten_put:
  assumes "UnmarshalTx X raw = Some tx"
    and "onlyTransactionsWritten X raws (db\<lparr>dbTransactions := (dbTransactions db)(Hash tx \<mapsto> tx)\<rparr>) db'"
  shows "onlyTransactionsWritten X (raw # raws) db db'"
  unfolding onlyTransactionsWritten_def
proof (intro conjI allI)
  fix h
  let ?db1 = "db\<lparr>dbTransactions := (dbTransactions db)(Hash tx \<mapsto> tx)\<rparr>"
  from assms(2) have
    "dbTransactions db' h = dbTransactions ?db1 h
      \<or> (\<exists>r \<in> set raws. \<exists>t. UnmarshalTx X r = Some t \<and> Hash t = h \<and> dbTransactions db' h = Some t)"
    by (simp add: onlyTransactionsWritten_def)
  then show "dbTransactions db' h = dbTransactions db h
      \<or> (\<exists>r \<in> set (raw # raws). \<exists>t. UnmarshalTx X r = Some t \<and> Hash t = h \<and> dbTransactions db' h = Some t)"
  proof
    assume e: "dbTransactions db' h = dbTransactions ?db1 h"
    show ?thesis
    proof (cases "h = Hash tx")
      case True
      then have "dbTransactions db' h = Some tx" using e by simp
      then show ?thesis using assms(1) True by auto
    next
      case False
      then show ?thesis using e by simp
    qed
  next
    assume "\<exists>r \<in> set raws. \<exists>t. UnmarshalTx X r = Some t \<and> Hash t = h \<and> dbTransactions db' h = Some t"
    then show ?thesis by auto
  qed
qed (use assms(2) in \<open>simp_all add: onlyTransactionsWritten_def\<close>)

lemma processTxs_frame:
  "kept app (final_state (processTxs X G txs rs app))
   \<and> onlyTransactionsWritten X txs (storage app) (storage (final_state (processTxs X G txs rs app)))"
proof (induction txs arbitrary: rs app)
  case Nil
  show ?case by (simp add: kept_def onlyTransactionsWritten_refl)
next
  case (Cons raw txs)
  note IH = Cons.IH
  show ?case
  proof (cases "UnmarshalTx X raw")
    case None
    then show ?thesis using IH [where app = app] by (simp add: onlyTransactionsWritten_skip)
  next
    case (Some tx)
    show ?thesis
    proof (cases "validateTransaction tx")
      case (Some err)
      then show ?thesis using \<open>UnmarshalTx X raw = Some tx\<close> IH [where app = app]
        by (simp add: onlyTransactionsWritten_skip)
    next
      case None
      note v = None
      show ?thesis
      proof (cases "ExecuteTransaction G (storage app) (executionTx tx) (executor app)")
        case (Blocked e1)
        then show ?thesis using \<open>UnmarshalTx X raw = Some tx\<close> v
          by (simp add: kept_def onlyTransactionsWritten_refl)
      next
        case (Panicked e1)
        then show ?thesis using \<open>UnmarshalTx X raw = Some tx\<close> v
          by (simp add: kept_def onlyTransactionsWritten_refl)
      next
        case (Done r e1)
        show ?thesis
        proof (cases r)
          case (Inl err)
          then show ?thesis
            using Done \<open>UnmarshalTx X raw = Some tx\<close> v IH [where app = "app\<lparr>executor := e1\<rparr>"]
            by (simp add: kept_def onlyTransactionsWritten_skip)
        next
          case (Inr result)
          show ?thesis
          proof (cases "Success result")
            case False
            then show ?thesis
              using Inr Done \<open>UnmarshalTx X raw = Some tx\<close> v
                IH [where app = "clearMempoolTx (Hash tx) (app\<lparr>executor := e1\<rparr>)"]
              by (simp add: kept_def onlyTransactionsWritten_skip clearMempoolTx_def)
          next
            case True
            define db1 where
              "db1 = (storage app)\<lparr>dbTransactions := (dbTransactions (storage app))(Hash tx \<mapsto> tx)\<rparr>"
            define app3 where
              "app3 = clearMempoolTx (Hash tx)
                 (app\<lparr>executor := e1, storage := db1,
                      currentBlockTxs := currentBlockTxs app @ [tx]\<rparr>)"
            define app4 where
              "app4 = app3\<lparr>currentBlockReceipts := currentBlockReceipts app3 @
                 [\<lparr>TransactionHash = Hash tx, BlockNumber = currentBlockHeight app3,
                   rcGasUsed = GasUsed result, Status = ''success'',
                   rcLogs = convertLogs (Logs result), rcError = Error result\<rparr>]\<rparr>"
            define rs' where
              "rs' = rs @ [\<lparr>etrCode = 0, etrLog = LogOK, etrGasUsed = sint (GasUsed result),
                   etrEvents = buildEvents result\<rparr>]"
            have step: "processTxs X G (raw # txs) rs app = processTxs X G txs rs' app4"
              using True Inr Done \<open>UnmarshalTx X raw = Some tx\<close> v
              by (simp add: Let_def app4_def app3_def db1_def rs'_def)
            have s4: "storage app4 = db1" "state app4 = state app"
              "appValidators app4 = appValidators app"
              "currentBlockHeight app4 = currentBlockHeight app"
              by (simp_all add: app4_def app3_def clearMempoolTx_def)
            from IH [where rs = rs' and app = app4]
            have k: "kept app4 (final_state (processTxs X G txs rs' app4))"
              and f: "onlyTransactionsWritten X txs (storage app4)
                        (storage (final_state (processTxs X G txs rs' app4)))"
              by blast+
            have "kept app (final_state (processTxs X G txs rs' app4))"
              using k by (simp add: kept_def s4)
            moreover have "onlyTransactionsWritten X (raw # txs) (storage app)
                        (storage (final_state (processTxs X G txs rs' app4)))"
              using \<open>UnmarshalTx X raw = Some tx\<close> f
              unfolding s4 db1_def by (rule onlyTransactionsWritten_put)
            ultimately show ?thesis by (simp only: step)
          qed
        qed
      qed
    qed
  qed
qed

lemma FinalizeBlock_frame:
  "state (final_state (FinalizeBlock X G req app)) = (state app)\<lparr>Height := reqHeight req\<rparr>
   \<and> currentBlockHeight (final_state (FinalizeBlock X G req app)) = word_of_int (reqHeight req)
   \<and> onlyTransactionsWritten X (reqTxs req) (storage app)
        (storage (final_state (FinalizeBlock X G req app)))"
proof -
  let ?app1 = "app\<lparr>state := (state app)\<lparr>Height := reqHeight req\<rparr>,
                     currentBlockHeight := word_of_int (reqHeight req),
                     currentBlockTime := reqTime req,
                     currentBlockTxs := [], currentBlockReceipts := [],
                     executor := SetCurrentBlockInfo (word_of_int (reqHeight req)) (reqTime req)
                                   (executor app)\<rparr>"
  let ?r = "processTxs X G (reqTxs req) [] ?app1"
  have P: "kept ?app1 (final_state ?r)"
    "onlyTransactionsWritten X (reqTxs req) (storage ?app1) (storage (final_state ?r))"
    using processTxs_frame [of ?app1 X G "reqTxs req" "[]"] by blast+
  have S: "storage ?app1 = storage app" by simp
  have F: "final_state (FinalizeBlock X G req app)
             = final_state ?r
           \<or> (\<exists>vso. final_state (FinalizeBlock X G req app) = (final_state ?r)\<lparr>appValidators := vso\<rparr>)"
    by (cases ?r; cases "rotateIfDue (reqHeight req) (appValidators (final_state ?r))")
       (auto simp: FinalizeBlock_def Let_def)
  from F show ?thesis
  proof
    assume "final_state (FinalizeBlock X G req app) = final_state ?r"
    then show ?thesis using P by (simp add: kept_def S)
  next
    assume "\<exists>vso. final_state (FinalizeBlock X G req app) = (final_state ?r)\<lparr>appValidators := vso\<rparr>"
    then show ?thesis using P by (auto simp: kept_def S)
  qed
qed

lemma Commit_publishes:
  "AppHash (state (Commit X G app)) =
     commitAppHash X G (fst (GetRootHash G (fst (snd (smSaveState G (storage app) (executor app))))))
       (state app)
   \<and> Height (state (Commit X G app)) = Height (state app)
   \<and> dbState (storage (Commit X G app)) =
       Some \<lparr>metaRoot = fst (GetRootHash G (fst (snd (smSaveState G (storage app) (executor app))))),
             metaHeight = Height (state app),
             metaAppHash = Some (AppHash (state (Commit X G app))),
             metaTimestamp = None\<rparr>
   \<and> (if currentBlockHeight app > 0
       then dbBlocks (storage (Commit X G app)) (unat (currentBlockHeight app)) \<noteq> None
            \<and> dbLatestHeight (storage (Commit X G app)) = Some (unat (currentBlockHeight app))
       else dbBlocks (storage (Commit X G app)) = dbBlocks (storage app))"
  by (simp add: Commit_def saveBlock_def Let_def smSaveState_def split: prod.splits option.splits)

text \<open>
  Claim C6, amended. Whether it returns or not, \<open>FinalizeBlock\<close> writes nothing to the
  store but transactions of the block, under their hashes: blocks, state metadata, latest
  height and validator list are as before. \<open>Commit\<close> writes the state metadata and, for a
  positive block height, the block and the latest height.
\<close>

theorem FinalizeBlock_writes_only_transactions:
  "onlyTransactionsWritten X (reqTxs req) (storage app)
     (storage (final_state (FinalizeBlock X G req app)))
   \<and> dbState (storage (Commit X G app)) =
       Some \<lparr>metaRoot = fst (GetRootHash G (fst (snd (smSaveState G (storage app) (executor app))))),
             metaHeight = Height (state app),
             metaAppHash = Some (AppHash (state (Commit X G app))),
             metaTimestamp = None\<rparr>
   \<and> (if currentBlockHeight app > 0
       then dbBlocks (storage (Commit X G app)) (unat (currentBlockHeight app)) \<noteq> None
            \<and> dbLatestHeight (storage (Commit X G app)) = Some (unat (currentBlockHeight app))
       else dbBlocks (storage (Commit X G app)) = dbBlocks (storage app))"
  using FinalizeBlock_frame [of X G req app] Commit_publishes [of X G app] by simp



lemma IsHexAddress_payer: "IsHexAddress payer"
  by (simp add: IsHexAddress_def payer_def has0xPrefix_def isHex_def isHexCharacter_def)

lemma IsHexAddress_payee: "IsHexAddress payee"
  by (simp add: IsHexAddress_def payee_def has0xPrefix_def isHex_def isHexCharacter_def)

lemma validate_txFree: "validateTransaction txFree = None"
  using IsHexAddress_payer IsHexAddress_payee
  by (simp add: validateTransaction_def txFree_def) (simp add: payer_def payee_def)

text \<open>
  Claim C6, as stated, fails: \<open>FinalizeBlock\<close> of a block with one transaction that
  executes with success leaves that transaction in the store, before any \<open>Commit\<close>. The
  transaction is a transfer of value 0 at gas price 0 and gas limit 21000 between two plain
  accounts, on a fresh state at block 1.
\<close>

theorem FinalizeBlock_writes_before_Commit:
  "dbTransactions (storage startedApp) ''h2'' = None
   \<and> dbTransactions (storage (final_state (FinalizeBlock stdExt recGeth blockOne startedApp))) ''h2''
       = Some txFree"
proof -
  have x: "ExecuteTransaction recGeth db (executionTx txFree)
        (SetCurrentBlockInfo 1 0 startedExecutor)
      = Done (Inr \<lparr>Success = True, GasUsed = 21000, ReturnData = [], Logs = [], Error = []\<rparr>)
          (writeExec (writeExec (SetCurrentBlockInfo 1 0 startedExecutor)
             [toMessage recGeth (executionTx txFree) 0 0])
             [toMessage recGeth (executionTx txFree) 0 0])" for db :: DB
    by (simp add: ExecuteTransaction_def executionTx_def txFree_def getStateDB_def
        startedExecutor_def SetCurrentBlockInfo_def SetString10_0 Let_def recGeth_def)
  have u: "UnmarshalTx stdExt rawFree = Some txFree"
    by (simp add: stdExt_def rawFree_def rawGasOnly_def)
  have h: "Hash txFree = ''h2''" by (simp add: txFree_def)
  show ?thesis
    by (simp add: FinalizeBlock_def blockOne_def startedApp_def NewABCIApp_def u validate_txFree
        x h Let_def clearMempoolTx_def rotateIfDue_def emptyDB_def)
qed

subsubsection \<open>Info\<close>

lemma finalizedFour:
  "FinalizeBlock stdExt recGeth blockFour startedApp =
     Done \<lparr>TxResults = [], ValidatorUpdates = []\<rparr> finalizedFour"
  by (simp add: finalizedFour_def FinalizeBlock_def blockFour_def startedApp_def NewABCIApp_def
      rotateIfDue_def Let_def)

lemma executor_finalizedFour:
  "executor finalizedFour = SetCurrentBlockInfo 4 0 startedExecutor"
  by (simp add: finalizedFour_def FinalizeBlock_def blockFour_def startedApp_def NewABCIApp_def
      rotateIfDue_def Let_def)

lemma root_finalizedFour:
  "fst (GetRootHash recGeth (fst (snd (smSaveState recGeth (storage finalizedFour)
      (executor finalizedFour))))) = 1"
  by (simp add: executor_finalizedFour SetCurrentBlockInfo_def startedExecutor_def
      smSaveState_def GetRootHash_def writeSm_def recGeth_def Let_def)

text \<open>
  Claim C2, amended. \<open>Info\<close> reports the height and app hash held in memory. For a freshly
  constructed application, whatever the store holds, these are 0 and the zero hash. After
  \<open>FinalizeBlock\<close> of height \<open>h\<close> and \<open>Commit\<close> in the same process, \<open>Info\<close> reports
  \<open>h\<close> and the app hash \<open>Commit\<close> computed, the values \<open>Commit\<close> wrote to the metadata.
\<close>

theorem Info_reports_memory:
  "Info (NewABCIApp db ex vs cid) = \<lparr>LastBlockHeight = 0, LastBlockAppHash = 0\<rparr>
   \<and> (\<forall>resp app1. FinalizeBlock X G req app = Done resp app1 \<longrightarrow>
         LastBlockHeight (Info (Commit X G app1)) = reqHeight req
         \<and> map_option metaHeight (dbState (storage (Commit X G app1))) = Some (reqHeight req)
         \<and> map_option metaAppHash (dbState (storage (Commit X G app1)))
             = Some (Some (LastBlockAppHash (Info (Commit X G app1)))))"
proof (intro conjI allI impI)
  show "Info (NewABCIApp db ex vs cid) = \<lparr>LastBlockHeight = 0, LastBlockAppHash = 0\<rparr>"
    by (simp add: Info_def NewABCIApp_def)
next
  fix resp app1
  assume f: "FinalizeBlock X G req app = Done resp app1"
  have "state (final_state (FinalizeBlock X G req app)) = (state app)\<lparr>Height := reqHeight req\<rparr>"
    using FinalizeBlock_frame [of X G req app] by simp
  then have h: "Height (state app1) = reqHeight req" by (simp add: f)
  note c = Commit_publishes [of X G app1]
  show "LastBlockHeight (Info (Commit X G app1)) = reqHeight req"
    using c h by (simp add: Info_def)
  show "map_option metaHeight (dbState (storage (Commit X G app1))) = Some (reqHeight req)"
    using c h by simp
  show "map_option metaAppHash (dbState (storage (Commit X G app1)))
          = Some (Some (LastBlockAppHash (Info (Commit X G app1))))"
    using c by (simp add: Info_def)
qed

text \<open>The amended claim C2 at block 4 on the started application.\<close>

theorem Info_reports_memory_witness:
  "FinalizeBlock stdExt recGeth blockFour startedApp =
     Done \<lparr>TxResults = [], ValidatorUpdates = []\<rparr> finalizedFour
   \<and> Info (NewABCIApp emptyDB startedExecutor None ''oxy'')
       = \<lparr>LastBlockHeight = 0, LastBlockAppHash = 0\<rparr>
   \<and> LastBlockHeight (Info committedFour) = 4
   \<and> map_option metaHeight (dbState (storage committedFour)) = Some 4
   \<and> map_option metaAppHash (dbState (storage committedFour))
       = Some (Some (LastBlockAppHash (Info committedFour)))"
proof -
  note f = finalizedFour
  have r: "reqHeight blockFour = 4" by (simp add: blockFour_def)
  from Info_reports_memory [of emptyDB startedExecutor None "''oxy''" stdExt recGeth blockFour startedApp]
  show ?thesis using f r unfolding committedFour_def by simp
qed

text \<open>
  Claim C2, as stated, fails: after block 4 is committed (height 4 and app hash 1 are in
  the stored metadata) the application a restart constructs over that store reports height
  0 and the zero app hash.
\<close>

theorem Info_after_restart:
  "LastBlockHeight (Info committedFour) = 4
   \<and> LastBlockAppHash (Info committedFour) = 1
   \<and> map_option metaHeight (dbState (storage committedFour)) = Some 4
   \<and> map_option metaAppHash (dbState (storage committedFour)) = Some (Some 1)
   \<and> LastBlockHeight (Info restartedFour) = 0
   \<and> LastBlockAppHash (Info restartedFour) = 0"
proof -
  have s: "state finalizedFour = \<lparr>Height = 4, AppHash = 0, Validators = []\<rparr>"
    using FinalizeBlock_frame [of stdExt recGeth blockFour startedApp]
    by (simp add: finalizedFour_def blockFour_def startedApp_def NewABCIApp_def)
  note c = Commit_publishes [of stdExt recGeth finalizedFour]
  have a: "AppHash (state committedFour) = 1"
    using c by (simp add: committedFour_def root_finalizedFour commitAppHash_def)
  have h: "Height (state committedFour) = 4"
    using c s by (simp add: committedFour_def)
  have m: "dbState (storage committedFour) =
      Some \<lparr>metaRoot = 1, metaHeight = 4, metaAppHash = Some 1, metaTimestamp = None\<rparr>"
    using c s a by (simp add: committedFour_def root_finalizedFour)
  have r: "Info restartedFour = \<lparr>LastBlockHeight = 0, LastBlockAppHash = 0\<rparr>"
    by (simp add: restartedFour_def Info_def NewABCIApp_def)
  show ?thesis using a h m r by (simp add: Info_def)
qed

subsubsection \<open>CheckTx\<close>














subsubsection \<open>Rotation\<close>

lemma decimal_small: "decimal (Suc 0) = ''1''" "decimal 1 = ''1''" "decimal 2 = ''2''"
  "decimal 3 = ''3''"
  by (simp_all add: decimal.simps [of "Suc 0"] decimal.simps [of 1] decimal.simps [of 2]
      decimal.simps [of 3] char_of_eq_iff)

lemma genesisOf_updates:
  "map (genesisOf recGeth) genesisUpdates =
     [\<lparr>gvAddress = ''1'', gvPubKey = keyOf 1, gvStake = 5 * OXG\<rparr>,
      \<lparr>gvAddress = ''2'', gvPubKey = keyOf 2, gvStake = 20 * OXG\<rparr>,
      \<lparr>gvAddress = ''3'', gvPubKey = keyOf 3, gvStake = 20 * OXG\<rparr>]"
  by (simp add: genesisOf_def genesisUpdates_def recGeth_def keyOf_def decimal_small OXG_def)

lemma genesis_init:
  "InitializeGenesisValidators (map (genesisOf recGeth) genesisUpdates) 0
     (NewValidatorSet (10 * OXG) 100) (emptyDB :: DB)
   = Done None (genesisSet, emptyDB\<lparr>dbValidatorsSet := Some (map snd (validators genesisSet))\<rparr>)"
  by (simp add: genesisOf_updates InitializeGenesisValidators_def NewValidatorSet_def Lock_def
      Unlock_def SaveValidators_def RLock_def RUnlock_def genesisSet_def Let_def)

lemma genesisStarted_eq:
  "InitChain recGeth genesisUpdates 0 genesisApp =
     Done \<lparr>icValidators = genesisUpdates, icAppHash = 0\<rparr> genesisStarted"
  "appValidators genesisStarted = Some genesisSet"
  "Validators (state genesisStarted) = genesisUpdates"
proof -
  have l: "LoadValidators (NewValidatorSet (10 * OXG) 100) (emptyDB :: DB)
      = Done None (NewValidatorSet (10 * OXG) 100)"
    by (simp add: LoadValidators_def Lock_def Unlock_def NewValidatorSet_def emptyDB_def)
  have a: "GetActiveValidators (NewValidatorSet (10 * OXG) 100)
      = Done [] (NewValidatorSet (10 * OXG) 100)"
    by (simp add: GetActiveValidators_def RLock_def RUnlock_def NewValidatorSet_def
        activeValidators_def sortByStakeDesc_def)
  have n: "length genesisUpdates > 0" by (simp add: genesisUpdates_def)
  have i: "InitChain recGeth genesisUpdates 0 genesisApp =
     Done \<lparr>icValidators = genesisUpdates, icAppHash = 0\<rparr>
       (genesisApp\<lparr>appValidators := Some genesisSet,
          storage := emptyDB\<lparr>dbValidatorsSet := Some (map snd (validators genesisSet))\<rparr>,
          state := (state genesisApp)\<lparr>Validators := genesisUpdates\<rparr>\<rparr>)"
    using n by (simp add: InitChain_def genesisApp_def NewABCIApp_def l a genesis_init)
  then show "InitChain recGeth genesisUpdates 0 genesisApp =
     Done \<lparr>icValidators = genesisUpdates, icAppHash = 0\<rparr> genesisStarted"
    by (simp add: genesisStarted_def)
  from i show "appValidators genesisStarted = Some genesisSet"
    by (simp add: genesisStarted_def)
  from i show "Validators (state genesisStarted) = genesisUpdates"
    by (simp add: genesisStarted_def)
qed

lemma power_genesis: "calculatePower (5 * OXG) = 5" "calculatePower (20 * OXG) = 20"
  by (simp_all add: calculatePower_def Int64_def OXG_def)

lemma copyBytes_nilPubKey: "copyBytes nilPubKey src = []"
  by (simp add: copyBytes_def nilPubKey_def)

lemma toUpdates_eq:
  "toUpdates vals =
     map (\<lambda>v. \<lparr>PubKeyBytes = [], updPower = Power v\<rparr>)
       (filter (\<lambda>v. length (PubKey v) = 32) vals)"
  by (simp add: toUpdates_def copyBytes_nilPubKey)

lemma active_genesisSet:
  "activeValidators (genesisSet\<lparr>mutex := m\<rparr>) =
     [newValidator ''2'' (keyOf 2) (20 * OXG) 0, newValidator ''3'' (keyOf 3) (20 * OXG) 0]"
  by (simp add: activeValidators_def genesisSet_def isActive_def stakeValid_def
      sortByStakeDesc_def newValidator_def OXG_def)

lemma snapshot_genesisSet:
  "GetActiveValidators genesisSet =
     Done [newValidator ''2'' (keyOf 2) (20 * OXG) 0, newValidator ''3'' (keyOf 3) (20 * OXG) 0]
       genesisSet"
proof -
  have "RLock genesisSet = Some (genesisSet\<lparr>mutex := ReadLocked 1\<rparr>)"
    by (simp add: RLock_def genesisSet_def)
  moreover have "RUnlock (genesisSet\<lparr>mutex := ReadLocked 1\<rparr>) = genesisSet"
    by (simp add: RUnlock_def genesisSet_def)
  ultimately show ?thesis
    by (simp add: GetActiveValidators_def active_genesisSet)
qed

lemma current_genesisSet:
  "ToCometBFTValidators genesisSet =
     Done [\<lparr>PubKeyBytes = [], updPower = 20\<rparr>, \<lparr>PubKeyBytes = [], updPower = 20\<rparr>]
       genesisSet"
proof -
  have "RLock genesisSet = Some (genesisSet\<lparr>mutex := ReadLocked 1\<rparr>)"
    by (simp add: RLock_def genesisSet_def)
  moreover have "RUnlock (genesisSet\<lparr>mutex := ReadLocked 1\<rparr>) = genesisSet"
    by (simp add: RUnlock_def genesisSet_def)
  ultimately show ?thesis
    by (simp add: ToCometBFTValidators_def active_genesisSet toUpdates_eq)
       (simp add: newValidator_def keyOf_def power_genesis)
qed

lemma rotate_genesisSet:
  "RotateValidators genesisSet =
     Done [\<lparr>PubKeyBytes = [], updPower = 20\<rparr>, \<lparr>PubKeyBytes = [], updPower = 20\<rparr>]
       genesisSet"
  by (simp add: RotateValidators_def Lock_def Unlock_def genesisSet_def Let_def isActive_def
      stakeValid_def newValidator_def copyValidator_def toUpdates_eq keyOf_def power_genesis)
     (simp add: OXG_def)

lemma keys_differ: "keyOf 1 \<noteq> keyOf 2" "keyOf 1 \<noteq> keyOf 3" "keyOf 2 \<noteq> keyOf 3"
  by (simp_all add: keyOf_def)

lemma no_changes_seen:
  "hasValidatorChanges
     [\<lparr>PubKeyBytes = [], updPower = 20\<rparr>, \<lparr>PubKeyBytes = [], updPower = 20\<rparr>]
     [\<lparr>PubKeyBytes = [], updPower = 20\<rparr>, \<lparr>PubKeyBytes = [], updPower = 20\<rparr>]
   = Done False ()"
  by (simp add: hasValidatorChanges_def powerMap_def Let_def)

text \<open>
  Claim C1. A genesis of three validators of power 5, 20 and 20 goes to the engine as it
  is (the set emitted at \<open>InitChain\<close>), while the validator of power 5 is below the
  minimum stake of 10 OXG and is not in the active snapshot. At the rotation height 100
  the snapshot (two keys of power 20) differs from the emitted set, yet the validator
  updates of \<open>FinalizeBlock\<close> are empty. The code compares what \<open>ToCometBFTValidators\<close>
  and \<open>RotateValidators\<close> compute from the same set, not the set emitted before, and
  both conversions leave every key empty.
\<close>

theorem rotation_ignores_emitted_set:
  "response (InitChain recGeth genesisUpdates 0 genesisApp)
     = Some \<lparr>icValidators = genesisUpdates, icAppHash = 0\<rparr>
   \<and> Validators (state genesisStarted) = genesisUpdates
   \<and> appValidators genesisStarted = Some genesisSet
   \<and> map_option (\<lambda>snapshot. set (map (\<lambda>v. (PubKey v, Power v)) snapshot))
        (response (GetActiveValidators genesisSet))
       = Some {(keyOf 2, 20), (keyOf 3, 20)}
   \<and> set (map (\<lambda>u. (PubKeyBytes u, updPower u)) genesisUpdates)
       \<noteq> {(keyOf 2, 20), (keyOf 3, 20)}
   \<and> response (ToCometBFTValidators genesisSet)
       = Some [\<lparr>PubKeyBytes = [], updPower = 20\<rparr>, \<lparr>PubKeyBytes = [], updPower = 20\<rparr>]
   \<and> response (RotateValidators genesisSet)
       = Some [\<lparr>PubKeyBytes = [], updPower = 20\<rparr>, \<lparr>PubKeyBytes = [], updPower = 20\<rparr>]
   \<and> response (FinalizeBlock stdExt recGeth blockHundred genesisStarted)
       = Some \<lparr>TxResults = [], ValidatorUpdates = []\<rparr>"
proof -
  have r: "rotateIfDue 100 (Some genesisSet) = Done [] (Some genesisSet)"
    by (simp add: rotateIfDue_def current_genesisSet rotate_genesisSet no_changes_seen)
  have f: "response (FinalizeBlock stdExt recGeth blockHundred genesisStarted)
       = Some \<lparr>TxResults = [], ValidatorUpdates = []\<rparr>"
    by (simp add: FinalizeBlock_def blockHundred_def Let_def genesisStarted_eq r)
  have s: "map_option (\<lambda>snapshot. set (map (\<lambda>v. (PubKey v, Power v)) snapshot))
        (response (GetActiveValidators genesisSet))
       = Some {(keyOf 2, 20), (keyOf 3, 20)}"
    by (simp add: snapshot_genesisSet newValidator_def power_genesis)
  have d: "set (map (\<lambda>u. (PubKeyBytes u, updPower u)) genesisUpdates)
       \<noteq> {(keyOf 2, 20), (keyOf 3, 20)}"
    using keys_differ by (auto simp: genesisUpdates_def)
  show ?thesis
    using f s d by (simp add: genesisStarted_eq current_genesisSet rotate_genesisSet)
qed

text \<open>
  The same in general. Every update the conversion builds has the empty key, so each of
  the two maps of \<open>hasValidatorChanges\<close> has one entry, with the power of the last update of
  its list: when these two powers agree no change is seen, when they differ the log line
  slices the empty key and the call panics. Unless \<open>RotateValidators\<close> cuts its list to
  \<open>maxValidators\<close>, the rotation therefore never returns an update, whatever was emitted
  before and whatever the order of the lists.
\<close>

lemma toUpdates_keys: "u \<in> set (toUpdates vals) \<Longrightarrow> PubKeyBytes u = []"
  by (auto simp: toUpdates_eq)

lemma powerMap_snoc:
  "powerMap (xs @ [x]) = AList.update (PubKeyBytes x) (updPower x) (powerMap xs)"
  by (simp add: powerMap_def)

lemma powerMap_empty_keys:
  "xs \<noteq> [] \<Longrightarrow> (\<And>u. u \<in> set xs \<Longrightarrow> PubKeyBytes u = []) \<Longrightarrow>
   powerMap xs = [([], updPower (last xs))]"
proof (induction xs rule: rev_induct)
  case Nil
  then show ?case by simp
next
  case (snoc x xs)
  have k: "PubKeyBytes x = []" using snoc.prems(2) by simp
  show ?case
  proof (cases "xs = []")
    case True
    then show ?thesis using k by (simp add: powerMap_def)
  next
    case False
    then have "powerMap xs = [([], updPower (last xs))]"
      using snoc.IH snoc.prems(2) by simp
    then show ?thesis using k by (simp add: powerMap_snoc)
  qed
qed

lemma hasValidatorChanges_empty_keys:
  assumes "length current = length updates" and "updates \<noteq> []"
    and "\<And>u. u \<in> set current \<Longrightarrow> PubKeyBytes u = []"
    and "\<And>u. u \<in> set updates \<Longrightarrow> PubKeyBytes u = []"
  shows "hasValidatorChanges current updates =
           (if updPower (last current) = updPower (last updates) then Done False ()
            else Panicked ())"
proof -
  have c: "current \<noteq> []" using assms(1,2) by auto
  have "powerMap current = [([], updPower (last current))]"
    using c assms(3) by (rule powerMap_empty_keys)
  moreover have "powerMap updates = [([], updPower (last updates))]"
    using assms(2,4) by (rule powerMap_empty_keys)
  ultimately show ?thesis
    using assms(1) by (simp add: hasValidatorChanges_def Let_def)
qed

lemma isActive_recomputed:
  "filter (isActive m) (map (snd \<circ> (\<lambda>(k, v). (k, v\<lparr>Power := calculatePower (Stake v)\<rparr>))) l)
     = map (\<lambda>v. v\<lparr>Power := calculatePower (Stake v)\<rparr>) (filter (isActive m) (map snd l))"
  by (induction l) (auto simp: isActive_def stakeValid_def)

lemma length_active_recomputed:
  "length (filter (isActive m \<circ> snd \<circ> (\<lambda>(k, v). (k, v\<lparr>Power := calculatePower (Stake v)\<rparr>))) l)
     = length (filter (isActive m \<circ> snd) l)"
  by (induction l) (auto simp: isActive_def stakeValid_def)

lemma length_toUpdates: "length (toUpdates vals) = length (filter (\<lambda>v. length (PubKey v) = 32) vals)"
  by (simp add: toUpdates_eq)

lemma length_toUpdates_sorted:
  "length (toUpdates (sortByStakeDesc vals)) = length (toUpdates vals)"
proof -
  have "mset (toUpdates (sortByStakeDesc vals)) = mset (toUpdates vals)"
    by (simp add: toUpdates_def mset_sortByStakeDesc)
  then show ?thesis by (rule mset_eq_length)
qed

lemma length_toUpdates_copy:
  "length (toUpdates (map copyValidator (map (\<lambda>v. v\<lparr>Power := calculatePower (Stake v)\<rparr>) vals)))
     = length (toUpdates vals)"
  by (induction vals) (simp_all add: toUpdates_eq copyValidator_def)

lemma rotation_never_emits:
  assumes fits: "int (length (filter (isActive (minStake vs)) (map snd (validators vs))))
                 \<le> maxValidators vs"
    and free: "mutex vs = Unlocked"
  shows "(\<exists>st. rotateIfDue height (Some vs) = Done [] st)
         \<or> (\<exists>st. rotateIfDue height (Some vs) = Panicked st)"
proof (cases "height > 0 \<and> height mod 100 = 0")
  case False
  then show ?thesis by (auto simp: rotateIfDue_def)
next
  case due: True
  let ?A = "filter (isActive (minStake vs)) (map snd (validators vs))"
  let ?vs2 = "vs\<lparr>validators :=
                 map (\<lambda>(k, v). (k, v\<lparr>Power := calculatePower (Stake v)\<rparr>)) (validators vs)\<rparr>"
  let ?C = "map copyValidator (map (\<lambda>v. v\<lparr>Power := calculatePower (Stake v)\<rparr>) ?A)"
  define current where "current = toUpdates (sortByStakeDesc ?A)"
  define updates where "updates = toUpdates ?C"
  have unl: "vs\<lparr>mutex := Unlocked\<rparr> = vs" using free by simp
  have cur: "ToCometBFTValidators vs = Done current vs"
    using free unl
    by (simp add: current_def ToCometBFTValidators_def RLock_def RUnlock_def activeValidators_def)
  have rot: "RotateValidators vs = Done updates ?vs2"
    using free fits
    by (simp add: updates_def RotateValidators_def Lock_def Unlock_def Let_def
        isActive_recomputed length_active_recomputed)
  have len: "length current = length updates"
    unfolding current_def updates_def
    by (simp only: length_toUpdates_sorted length_toUpdates_copy)
  show ?thesis
  proof (cases "length current \<le> 1")
    case True
    then show ?thesis using due by (simp add: rotateIfDue_def cur)
  next
    case False
    then have ne: "updates \<noteq> []" using len by auto
    have kc: "PubKeyBytes u = []" if "u \<in> set current" for u
      using that unfolding current_def by (rule toUpdates_keys)
    have ku: "PubKeyBytes u = []" if "u \<in> set updates" for u
      using that unfolding updates_def by (rule toUpdates_keys)
    have h: "hasValidatorChanges current updates =
           (if updPower (last current) = updPower (last updates)
            then Done False () else Panicked ())"
      using len ne kc ku by (rule hasValidatorChanges_empty_keys)
    show ?thesis
      using due False ne by (simp add: rotateIfDue_def cur rot h)
  qed
qed

text \<open>
  The panic, for lists that end in different powers: what the two conversions give, in one
  order of the map, for the genesis above with a third validator of power 30 instead of 20.
\<close>

lemma changed_power_panics:
  "hasValidatorChanges
     [\<lparr>PubKeyBytes = [], updPower = 30\<rparr>, \<lparr>PubKeyBytes = [], updPower = 20\<rparr>]
     [\<lparr>PubKeyBytes = [], updPower = 20\<rparr>, \<lparr>PubKeyBytes = [], updPower = 30\<rparr>]
   = Panicked ()"
  by (simp add: hasValidatorChanges_def powerMap_def Let_def)


end
